theory Spec2Isabelle
  imports Main "HOL-Library.Sublist"
begin

section \<open>The serial terminal: connection lifecycle and stream duplexing\<close>

text \<open>
  The program is one TypeScript module, \<^verbatim>\<open>src/index.ts\<close>. It is asynchronous: every
  \<^verbatim>\<open>await\<close> suspends the function that executes it, and the event loop resumes it when
  the awaited promise settles. The embedding is a state machine. The state holds the
  module's global variables, the DOM properties the module reads or writes, the promises
  of the suspended functions (each one records the \<^verbatim>\<open>await\<close> at which its function is
  suspended), and the trace of the calls the module has made on its collaborators (the
  terminal, the streams, the serial port). An event is something the browser does: a
  click, a promise of the browser settling (which resumes the function that awaits it), a
  chunk delivered to a sink, the job that resumes \<^verbatim>\<open>processStreams\<close>. \<open>step\<close> runs the
  module's code for one event, from the resumption up to the next \<^verbatim>\<open>await\<close>, as the event
  loop does. \<^verbatim>\<open>processStreams\<close> awaits promises of the module itself, those of the two
  pumps: the job that resumes it is queued when the pump returns, behind the jobs that
  are queued already, so it is an event of its own, and the other pump may run before it.

  Two parts of the module take no part in a session and are left out: the registration
  of the service worker (lines 20 to 30), and the listener that shows or hides the custom
  baud rate input (lines 79 to 85).
\<close>

subsection \<open>Values of the language\<close>

text \<open>A thrown value, with the two properties the module reads: \<^verbatim>\<open>e.name\<close>, \<^verbatim>\<open>e.message\<close>.\<close>

datatype js_error = JsError (err_name: string) (err_message: string)

text \<open>How an awaited promise settles.\<close>

datatype settled = Resolved | Rejected js_error

text \<open>
  A JavaScript number as \<^verbatim>\<open>Number.parseInt\<close> returns it: \<^verbatim>\<open>NaN\<close> or an integer.
  (The integer is the mathematical one; JavaScript rounds it to the nearest double
  beyond \<open>2^53\<close>, and keeps the sign of a zero.)
\<close>

datatype number = NaN | Num int

type_synonym chunk = string

subsection \<open>\<^verbatim>\<open>Number.parseInt\<close> with one argument\<close>

text \<open>
  \<^verbatim>\<open>Number.parseInt\<close> is a builtin of the language, not code of the module. It is modelled
  after ECMA-262 (parseInt with the radix undefined), on ASCII strings: leading white
  space is dropped, then an optional sign, then an optional \<^verbatim>\<open>0x\<close> or \<^verbatim>\<open>0X\<close> (which makes
  the radix 16, otherwise 10); the longest prefix of digits of that radix is the numeral;
  when it is empty the result is \<^verbatim>\<open>NaN\<close>.
\<close>

definition is_white_space :: "char \<Rightarrow> bool" where
  "is_white_space c = (of_char c \<in> {9, 10, 11, 12, 13, 32 :: nat})"

definition digit_of :: "char \<Rightarrow> nat option" where
  "digit_of c =
     (let n = (of_char c :: nat) in
      if 48 \<le> n \<and> n \<le> 57 then Some (n - 48)
      else if 97 \<le> n \<and> n \<le> 122 then Some (n - 87)
      else if 65 \<le> n \<and> n \<le> 90 then Some (n - 55)
      else None)"

definition is_digit :: "nat \<Rightarrow> char \<Rightarrow> bool" where
  "is_digit radix c = (case digit_of c of None \<Rightarrow> False | Some d \<Rightarrow> d < radix)"

fun digits_value :: "nat \<Rightarrow> nat \<Rightarrow> string \<Rightarrow> nat" where
  "digits_value radix acc [] = acc"
| "digits_value radix acc (c # cs) =
     digits_value radix (acc * radix + (case digit_of c of None \<Rightarrow> 0 | Some d \<Rightarrow> d)) cs"

definition parse_digits :: "nat \<Rightarrow> string \<Rightarrow> nat option" where
  "parse_digits radix s =
     (let z = takeWhile (is_digit radix) s in
      if z = [] then None else Some (digits_value radix 0 z))"

definition strip_sign :: "string \<Rightarrow> int \<times> string" where
  "strip_sign s =
     (case s of
        [] \<Rightarrow> (1, [])
      | c # cs \<Rightarrow> if c = CHR ''-'' then (- 1, cs) else if c = CHR ''+'' then (1, cs) else (1, s))"

definition strip_radix :: "string \<Rightarrow> nat \<times> string" where
  "strip_radix s =
     (case s of
        c # d # cs \<Rightarrow> if c = CHR ''0'' \<and> (d = CHR ''x'' \<or> d = CHR ''X'') then (16, cs) else (10, s)
      | _ \<Rightarrow> (10, s))"

definition parseInt :: "string \<Rightarrow> number" where
  "parseInt str =
     (let (sign, s1) = strip_sign (dropWhile is_white_space str);
          (radix, s2) = strip_radix s1
      in case parse_digits radix s2 of
           None \<Rightarrow> NaN
         | Some n \<Rightarrow> Num (sign * int n))"

subsection \<open>The collaborators' calls\<close>

text \<open>The streams the module pipes: two of the port, four made at lines 46 to 64.\<close>

datatype stream =
    PortReadable | PortWritable
  | TermInputFromPort | TermInputFromEcho
  | TermOutputForPort | TermOutputForEcho

text \<open>
  The options object of a \<^verbatim>\<open>pipeTo\<close> call. \<open>signal\<close> is the \<^verbatim>\<open>AbortController\<close> whose
  signal is passed; controllers are numbered in the order of their creation.
\<close>

record pipe_options =
  signal :: nat
  preventClose :: bool
  preventAbort :: bool
  preventCancel :: bool

text \<open>The options object of \<^verbatim>\<open>port.open\<close> (lines 108 to 114).\<close>

record serial_options =
  baudrate :: number
  databits :: number
  parity :: string
  stopbits :: number
  rtscts :: bool

text \<open>The three promises \<^verbatim>\<open>processStreams\<close> awaits (lines 144, 148, 149).\<close>

datatype awaitable = Of_portUnreadable | Of_portUnwritable | Of_port_close

text \<open>
  What the module does to the world outside it, in the order it does it: the calls on
  its collaborators, and (\<open>Awaited\<close>) the resumption of \<^verbatim>\<open>processStreams\<close> after one of
  its three \<^verbatim>\<open>await\<close>s.
\<close>

datatype effect =
    New_AbortController nat
  | Abort nat
  | PipeTo stream stream pipe_options
  | RequestPort
  | PortOpen serial_options
  | PortClose
  | Writeln string
  | WriteUtf8 chunk
  | Awaited awaitable

text \<open>
  The function that makes the call: the click listener with \<^verbatim>\<open>requestNewPort\<close> and
  \<^verbatim>\<open>connectToPort\<close>; \<^verbatim>\<open>processStreams\<close> (the controller); \<^verbatim>\<open>processReadableStream\<close>
  (the read pump); \<^verbatim>\<open>processWritableStream\<close> (the write pump); the \<^verbatim>\<open>write\<close> callback
  of a sink.
\<close>

datatype task = ClickHandler | Controller | ReadPump | WritePump | Sink

subsection \<open>The state\<close>

text \<open>The DOM properties the module writes (lines 118 to 124 and 152 to 158).\<close>

record ui =
  connectButton_textContent :: string
  baudRateSelector_disabled :: bool
  customBaudRateInput_disabled :: bool
  dataBitsSelector_disabled :: bool
  paritySelector_disabled :: bool
  stopBitsSelector_disabled :: bool
  flowControlCheckbox_disabled :: bool

text \<open>The DOM properties \<^verbatim>\<open>connectToPort\<close> reads.\<close>

record form =
  baudRateSelector_value :: string
  customBaudRateInput_value :: string
  dataBitsSelector_value :: string
  paritySelector_value :: string
  stopBitsSelector_value :: string
  flowControlCheckbox_checked :: bool

text \<open>
  The promise of \<^verbatim>\<open>processReadableStream\<close>: not yet created, suspended at the \<^verbatim>\<open>await\<close>
  of line 192, fulfilled (the function returned), or rejected (it threw).
\<close>

datatype read_promise = R_undefined | R_await_pipeTo | R_fulfilled | R_rejected js_error

text \<open>
  The promise of \<^verbatim>\<open>processWritableStream\<close>. Suspended at line 172 it holds the
  iteration's \<^verbatim>\<open>localEchoController\<close>; suspended at line 184, inside \<^verbatim>\<open>finally\<close>, it
  holds the exception that is rethrown when the block ends, if there is one.
\<close>

datatype write_promise =
    W_undefined
  | W_await_pipeTo nat
  | W_await_localEchoClosed "js_error option"
  | W_fulfilled
  | W_rejected js_error

text \<open>The promise \<^verbatim>\<open>localEchoClosed\<close> of the current iteration (line 165).\<close>

datatype echo_promise = E_undefined | E_pending | E_settled settled

text \<open>The promise of \<^verbatim>\<open>processStreams\<close>, suspended at line 144, 148 or 149.\<close>

datatype controller_promise =
    C_undefined
  | C_await_portUnreadable
  | C_await_portUnwritable
  | C_await_close
  | C_fulfilled
  | C_rejected js_error

text \<open>
  \<open>aborted\<close> is the set of the controllers whose \<^verbatim>\<open>signal.aborted\<close> is true.
  \<open>port_readable\<close> and \<open>port_writable\<close> say whether \<^verbatim>\<open>port.readable\<close> and
  \<^verbatim>\<open>port.writable\<close> are non-null when the module reads them.
\<close>

record state =
  connected :: bool
  streamController :: nat
  next_controller :: nat
  aborted :: "nat set"
  port_readable :: bool
  port_writable :: bool
  form :: form
  echoCheckbox_checked :: bool
  ui :: ui
  portUnreadable :: read_promise
  portUnwritable :: write_promise
  localEchoClosed :: echo_promise
  processStreams_promise :: controller_promise
  trace :: "(task \<times> effect) list"

text \<open>
  The state when the module has loaded (lines 40 to 43): not connected, one
  \<^verbatim>\<open>AbortController\<close> created. The form and the widgets are as the page has them.
\<close>

definition init :: "form \<Rightarrow> ui \<Rightarrow> bool \<Rightarrow> state" where
  "init f u echo =
     \<lparr>connected = False, streamController = 0, next_controller = 1, aborted = {},
      port_readable = True, port_writable = True, form = f, echoCheckbox_checked = echo,
      ui = u, portUnreadable = R_undefined, portUnwritable = W_undefined,
      localEchoClosed = E_undefined, processStreams_promise = C_undefined, trace = []\<rparr>"

text \<open>
  The result of running a block of statements: it completes, or it throws. Either way
  the state is the one the block has reached.
\<close>

datatype completion = Normal state | Throw js_error state

definition await :: "settled \<Rightarrow> state \<Rightarrow> completion" where
  "await r s = (case r of Resolved \<Rightarrow> Normal s | Rejected e \<Rightarrow> Throw e s)"

definition try_catch :: "completion \<Rightarrow> (js_error \<Rightarrow> state \<Rightarrow> completion) \<Rightarrow> completion" where
  "try_catch c handler = (case c of Normal s \<Rightarrow> Normal s | Throw e s \<Rightarrow> handler e s)"

definition emit :: "task \<Rightarrow> effect \<Rightarrow> state \<Rightarrow> state" where
  "emit t e s = s\<lparr>trace := trace s @ [(t, e)]\<rparr>"

definition writeln :: "task \<Rightarrow> string \<Rightarrow> state \<Rightarrow> state" where
  "writeln t l s = emit t (Writeln l) s"

definition writeUtf8 :: "task \<Rightarrow> chunk \<Rightarrow> state \<Rightarrow> state" where
  "writeUtf8 t c s = emit t (WriteUtf8 c) s"

definition signal_aborted :: "nat \<Rightarrow> state \<Rightarrow> bool" where
  "signal_aborted c s = (c \<in> aborted s)"

definition abort :: "task \<Rightarrow> nat \<Rightarrow> state \<Rightarrow> state" where
  "abort t c s = emit t (Abort c) (s\<lparr>aborted := insert c (aborted s)\<rparr>)"

text \<open>\<^verbatim>\<open>new AbortController()\<close>: the next number, its signal not aborted.\<close>

definition new_AbortController :: "task \<Rightarrow> state \<Rightarrow> nat \<times> state" where
  "new_AbortController t s =
     (let c = next_controller s
      in (c, emit t (New_AbortController c)
               (s\<lparr>next_controller := Suc c, aborted := aborted s - {c}\<rparr>)))"

subsection \<open>The sinks (lines 46 to 57)\<close>

definition termInputFromPort_write :: "chunk \<Rightarrow> state \<Rightarrow> state" where
  "termInputFromPort_write chunk s = writeUtf8 Sink chunk s"

definition termInputFromEcho_write :: "chunk \<Rightarrow> state \<Rightarrow> state" where
  "termInputFromEcho_write chunk s =
     (if echoCheckbox_checked s then writeUtf8 Sink chunk s else s)"

subsection \<open>\<^verbatim>\<open>processReadableStream\<close> (lines 189 to 204)\<close>

text \<open>
  From the loop's condition (line 190) to the \<^verbatim>\<open>await\<close> of line 192, or to the return.
  (\<^verbatim>\<open>port\<close> is an object, so the first conjunct of the condition is true.)
\<close>

definition processReadableStream :: "state \<Rightarrow> state" where
  "processReadableStream s =
     (if port_readable s \<and> \<not> signal_aborted (streamController s) s
      then (emit ReadPump
              (PipeTo PortReadable TermInputFromPort
                 \<lparr>signal = streamController s, preventClose = True, preventAbort = True,
                  preventCancel = True\<rparr>) s)
           \<lparr>portUnreadable := R_await_pipeTo\<rparr>
      else s\<lparr>portUnreadable := R_fulfilled\<rparr>)"

text \<open>The \<^verbatim>\<open>catch\<close> block, lines 198 to 202.\<close>

definition processReadableStream_catch :: "js_error \<Rightarrow> state \<Rightarrow> completion" where
  "processReadableStream_catch e s =
     (if err_name e \<noteq> ''AbortError''
      then Normal (writeln ReadPump (''<READ ERROR: '' @ err_message e @ ''>'') s)
      else Normal s)"

text \<open>The \<^verbatim>\<open>pipeTo\<close> of line 192 settles: the \<^verbatim>\<open>try\<close> statement ends, the loop goes on.\<close>

definition processReadableStream_pipe_settled :: "settled \<Rightarrow> state \<Rightarrow> state" where
  "processReadableStream_pipe_settled r s =
     (case try_catch (await r s) processReadableStream_catch of
        Normal s' \<Rightarrow> processReadableStream s'
      | Throw e s' \<Rightarrow> s'\<lparr>portUnreadable := R_rejected e\<rparr>)"

subsection \<open>\<^verbatim>\<open>processWritableStream\<close> (lines 162 to 187)\<close>

text \<open>From the loop's condition (line 163) to the \<^verbatim>\<open>await\<close> of line 172, or to the return.\<close>

definition processWritableStream :: "state \<Rightarrow> state" where
  "processWritableStream s =
     (if port_writable s \<and> \<not> signal_aborted (streamController s) s
      then let (localEchoController, s1) = new_AbortController WritePump s;
               s2 = (emit WritePump
                       (PipeTo TermOutputForEcho TermInputFromEcho
                          \<lparr>signal = localEchoController, preventClose = True,
                           preventAbort = True, preventCancel = True\<rparr>) s1)
                    \<lparr>localEchoClosed := E_pending\<rparr>;
               s3 = emit WritePump
                      (PipeTo TermOutputForPort PortWritable
                         \<lparr>signal = streamController s2, preventClose = True,
                          preventAbort = True, preventCancel = True\<rparr>) s2
           in s3\<lparr>portUnwritable := W_await_pipeTo localEchoController\<rparr>
      else s\<lparr>portUnwritable := W_fulfilled\<rparr>)"

text \<open>The \<^verbatim>\<open>catch\<close> block, lines 178 to 181.\<close>

definition processWritableStream_catch :: "js_error \<Rightarrow> state \<Rightarrow> completion" where
  "processWritableStream_catch e s =
     (if err_name e \<noteq> ''AbortError''
      then Normal (writeln WritePump (''<WRITE ERROR: '' @ err_message e @ ''>'') s)
      else Normal s)"

text \<open>
  The end of the \<^verbatim>\<open>finally\<close> block (line 185): an exception that the \<^verbatim>\<open>try\<close> statement left
  is thrown again, otherwise the loop goes on.
\<close>

definition processWritableStream_end_finally :: "js_error option \<Rightarrow> state \<Rightarrow> state" where
  "processWritableStream_end_finally pending s =
     (case pending of
        None \<Rightarrow> processWritableStream s
      | Some e \<Rightarrow> s\<lparr>portUnwritable := W_rejected e\<rparr>)"

text \<open>
  The \<^verbatim>\<open>pipeTo\<close> of line 172 settles: \<^verbatim>\<open>catch\<close>, then \<^verbatim>\<open>finally\<close> up to its \<^verbatim>\<open>await\<close> (lines 183
  and 184). \<^verbatim>\<open>localEchoClosed.catch(() => {})\<close> settles when \<^verbatim>\<open>localEchoClosed\<close> does, and
  is always fulfilled; when \<^verbatim>\<open>localEchoClosed\<close> has settled already the function goes on.
  (Nothing but this \<^verbatim>\<open>await\<close> reads \<^verbatim>\<open>localEchoClosed\<close>: a run in which the echo pipe has
  ended early and other functions run between line 184 and the next turn of the loop is
  the run in which \<open>EchoPipeSettled\<close> comes after them.)
\<close>

definition processWritableStream_pipe_settled :: "nat \<Rightarrow> settled \<Rightarrow> state \<Rightarrow> state" where
  "processWritableStream_pipe_settled localEchoController r s =
     (let (pending, s1) =
            (case try_catch (await r s) processWritableStream_catch of
               Normal s' \<Rightarrow> (None, s')
             | Throw e s' \<Rightarrow> (Some e, s'));
          s2 = abort WritePump localEchoController s1
      in case localEchoClosed s2 of
           E_settled x \<Rightarrow> processWritableStream_end_finally pending s2
         | _ \<Rightarrow> s2\<lparr>portUnwritable := W_await_localEchoClosed pending\<rparr>)"

text \<open>\<^verbatim>\<open>localEchoClosed\<close> settles, fulfilled or rejected.\<close>

definition localEchoClosed_settled :: "settled \<Rightarrow> state \<Rightarrow> state" where
  "localEchoClosed_settled r s =
     (if localEchoClosed s = E_pending
      then let s1 = s\<lparr>localEchoClosed := E_settled r\<rparr>
           in case portUnwritable s1 of
                W_await_localEchoClosed pending \<Rightarrow> processWritableStream_end_finally pending s1
              | _ \<Rightarrow> s1
      else s)"

subsection \<open>\<^verbatim>\<open>processStreams\<close> (lines 137 to 160)\<close>

definition ui_connected :: ui where
  "ui_connected =
     \<lparr>connectButton_textContent = ''Disconnect'', baudRateSelector_disabled = True,
      customBaudRateInput_disabled = True, dataBitsSelector_disabled = True,
      paritySelector_disabled = True, stopBitsSelector_disabled = True,
      flowControlCheckbox_disabled = True\<rparr>"

definition ui_disconnected :: ui where
  "ui_disconnected =
     \<lparr>connectButton_textContent = ''Connect'', baudRateSelector_disabled = False,
      customBaudRateInput_disabled = False, dataBitsSelector_disabled = False,
      paritySelector_disabled = False, stopBitsSelector_disabled = False,
      flowControlCheckbox_disabled = False\<rparr>"

text \<open>\<^verbatim>\<open>port.close()\<close> has settled (line 149): lines 151 to 159, or the exception.\<close>

definition processStreams_closed :: "settled \<Rightarrow> state \<Rightarrow> state" where
  "processStreams_closed r s =
     (case await r s of
        Throw e s' \<Rightarrow> s'\<lparr>processStreams_promise := C_rejected e\<rparr>
      | Normal s' \<Rightarrow>
          (writeln Controller ''<DISCONNECTED>''
             ((emit Controller (Awaited Of_port_close) s')
              \<lparr>connected := False, ui := ui_disconnected\<rparr>))
          \<lparr>processStreams_promise := C_fulfilled\<rparr>)"

text \<open>Line 149: the call of \<^verbatim>\<open>port.close()\<close>, and the \<^verbatim>\<open>await\<close>.\<close>

definition processStreams_close :: "state \<Rightarrow> state" where
  "processStreams_close s = (emit Controller PortClose s)\<lparr>processStreams_promise := C_await_close\<rparr>"

text \<open>
  \<^verbatim>\<open>processStreams\<close> is resumed at line 148 (\<^verbatim>\<open>await portUnwritable\<close>): it goes on if the
  write pump has returned, and stays suspended otherwise.
\<close>

definition processStreams_await_portUnwritable :: "state \<Rightarrow> state" where
  "processStreams_await_portUnwritable s =
     (case portUnwritable s of
        W_fulfilled \<Rightarrow> processStreams_close (emit Controller (Awaited Of_portUnwritable) s)
      | W_rejected e \<Rightarrow> s\<lparr>processStreams_promise := C_rejected e\<rparr>
      | _ \<Rightarrow> s\<lparr>processStreams_promise := C_await_portUnwritable\<rparr>)"

text \<open>Line 147, then the \<^verbatim>\<open>await\<close> of line 148, which suspends the function.\<close>

definition processStreams_abort :: "state \<Rightarrow> state" where
  "processStreams_abort s =
     (abort Controller (streamController s) s)\<lparr>processStreams_promise := C_await_portUnwritable\<rparr>"

text \<open>
  \<^verbatim>\<open>processStreams\<close> is resumed at line 144 (\<^verbatim>\<open>await portUnreadable\<close>): it goes on if the
  read pump has returned, and stays suspended otherwise.
\<close>

definition processStreams_await_portUnreadable :: "state \<Rightarrow> state" where
  "processStreams_await_portUnreadable s =
     (case portUnreadable s of
        R_fulfilled \<Rightarrow> processStreams_abort (emit Controller (Awaited Of_portUnreadable) s)
      | R_rejected e \<Rightarrow> s\<lparr>processStreams_promise := C_rejected e\<rparr>
      | _ \<Rightarrow> s\<lparr>processStreams_promise := C_await_portUnreadable\<rparr>)"

text \<open>
  The call of \<^verbatim>\<open>processStreams\<close>, lines 138 to 144. Each pump runs up to its first
  \<^verbatim>\<open>await\<close> when it is called; then the \<^verbatim>\<open>await\<close> of line 144 suspends the function, also
  when the read pump has returned at once.
\<close>

definition processStreams :: "state \<Rightarrow> state" where
  "processStreams s =
     (let (c, s1) = new_AbortController Controller s;
          s2 = s1\<lparr>streamController := c\<rparr>;
          s3 = processReadableStream s2;
          s4 = processWritableStream s3
      in s4\<lparr>processStreams_promise := C_await_portUnreadable\<rparr>)"

text \<open>
  The event loop runs the job that resumes \<^verbatim>\<open>processStreams\<close> at the pump it awaits. The
  job is queued when the pump returns, behind the jobs that are queued already: it runs
  in a step of its own, and other functions may run between the pump's return and it.
\<close>

definition processStreams_resume :: "state \<Rightarrow> state" where
  "processStreams_resume s =
     (case processStreams_promise s of
        C_await_portUnreadable \<Rightarrow> processStreams_await_portUnreadable s
      | C_await_portUnwritable \<Rightarrow> processStreams_await_portUnwritable s
      | _ \<Rightarrow> s)"

subsection \<open>Connecting (lines 96 to 135)\<close>

definition getSelectedBaudRate :: "state \<Rightarrow> number" where
  "getSelectedBaudRate s =
     (if baudRateSelector_value (form s) = ''custom''
      then parseInt (customBaudRateInput_value (form s))
      else parseInt (baudRateSelector_value (form s)))"

text \<open>
  \<^verbatim>\<open>connectToPort\<close>; \<open>opened\<close> is how \<^verbatim>\<open>port.open(options)\<close> settles. The call of
  \<^verbatim>\<open>processStreams\<close> at line 127 is not awaited.
\<close>

definition connectToPort :: "settled \<Rightarrow> state \<Rightarrow> completion" where
  "connectToPort opened s =
     (let options =
            \<lparr>baudrate = getSelectedBaudRate s,
             databits = parseInt (dataBitsSelector_value (form s)),
             parity = paritySelector_value (form s),
             stopbits = parseInt (stopBitsSelector_value (form s)),
             rtscts = flowControlCheckbox_checked (form s)\<rparr>
      in case await opened (emit ClickHandler (PortOpen options) s) of
           Throw e s' \<Rightarrow> Throw e s'
         | Normal s' \<Rightarrow>
             Normal (processStreams
                       (writeln ClickHandler ''<CONNECTED>''
                          (s'\<lparr>connected := True, ui := ui_connected\<rparr>))))"

text \<open>The \<^verbatim>\<open>catch\<close> block of \<^verbatim>\<open>requestNewPort\<close>, lines 100 to 104.\<close>

definition requestNewPort_catch :: "js_error \<Rightarrow> state \<Rightarrow> completion" where
  "requestNewPort_catch e s =
     (if err_name e \<noteq> ''NotFoundError''
      then Normal (writeln ClickHandler (''<CONNECT ERROR: '' @ err_message e) s)
      else Normal s)"

text \<open>
  \<^verbatim>\<open>requestNewPort\<close>; \<open>chosen\<close> is how \<^verbatim>\<open>navigator.serial.requestPort({})\<close> settles. The
  two \<^verbatim>\<open>await\<close>s of the connection are taken in one step: no other event comes between
  the click and the opening of the port. Nobody awaits the promise of \<^verbatim>\<open>requestNewPort\<close>.
\<close>

definition requestNewPort :: "settled \<Rightarrow> settled \<Rightarrow> state \<Rightarrow> state" where
  "requestNewPort chosen opened s =
     (case try_catch
             (case await chosen (emit ClickHandler RequestPort s) of
                Throw e s' \<Rightarrow> Throw e s'
              | Normal s' \<Rightarrow> connectToPort opened s')
             requestNewPort_catch of
        Normal s' \<Rightarrow> s'
      | Throw e s' \<Rightarrow> s')"

text \<open>The click listener of the connect button, lines 70 to 76.\<close>

definition click :: "settled \<Rightarrow> settled \<Rightarrow> state \<Rightarrow> state" where
  "click chosen opened s =
     (if connected s then abort ClickHandler (streamController s) s
      else requestNewPort chosen opened s)"

subsection \<open>The event loop\<close>

text \<open>
  What the browser does: the user clicks the connect button (with how the chooser and
  the opening of the port settle, should the click connect); the user sets the echo
  checkbox; the port's two streams appear or disappear; one of the three pending pipes
  settles; \<^verbatim>\<open>port.close()\<close> settles; a pending pipe hands a chunk to its sink; the job that
  resumes \<^verbatim>\<open>processStreams\<close> after line 144 or line 148 runs.
\<close>

datatype event =
    Click settled settled
  | SetEcho bool
  | PortStreams bool bool
  | ReadPipeSettled settled
  | WritePipeSettled settled
  | EchoPipeSettled settled
  | ClosePortSettled settled
  | PortChunk chunk
  | EchoChunk chunk
  | ControllerResumed

fun step :: "event \<Rightarrow> state \<Rightarrow> state" where
  "step (Click chosen opened) s = click chosen opened s"
| "step (SetEcho b) s = s\<lparr>echoCheckbox_checked := b\<rparr>"
| "step (PortStreams r w) s = s\<lparr>port_readable := r, port_writable := w\<rparr>"
| "step (ReadPipeSettled r) s =
     (if portUnreadable s = R_await_pipeTo
      then processReadableStream_pipe_settled r s
      else s)"
| "step (WritePipeSettled r) s =
     (case portUnwritable s of
        W_await_pipeTo localEchoController \<Rightarrow>
          processWritableStream_pipe_settled localEchoController r s
      | _ \<Rightarrow> s)"
| "step (EchoPipeSettled r) s = localEchoClosed_settled r s"
| "step (ClosePortSettled r) s =
     (if processStreams_promise s = C_await_close then processStreams_closed r s else s)"
| "step (PortChunk chunk) s =
     (if portUnreadable s = R_await_pipeTo then termInputFromPort_write chunk s else s)"
| "step (EchoChunk chunk) s =
     (if localEchoClosed s = E_pending then termInputFromEcho_write chunk s else s)"
| "step ControllerResumed s = processStreams_resume s"

fun run :: "event list \<Rightarrow> state \<Rightarrow> state" where
  "run [] s = s"
| "run (e # es) s = run es (step e s)"

subsection \<open>Observations on the trace\<close>

text \<open>The lines the module has written with \<^verbatim>\<open>term.writeln\<close>.\<close>

definition line_of :: "task \<times> effect \<Rightarrow> string list" where
  "line_of te = (case snd te of Writeln l \<Rightarrow> [l] | _ \<Rightarrow> [])"

definition lines_of :: "(task \<times> effect) list \<Rightarrow> string list" where
  "lines_of tr = concat (map line_of tr)"

text \<open>
  What \<^verbatim>\<open>processStreams\<close> has done since it was last called: each call begins by making
  the session's controller (line 138), so these are the controller's effects from its
  last \<open>New_AbortController\<close> on. \<open>teardown_order\<close> is the whole of a call, in the
  order of the source: lines 138, 144, 147, 148, 149 (the call of \<^verbatim>\<open>port.close()\<close>, then the
  resumption) and 159.
\<close>

definition is_New_AbortController :: "effect \<Rightarrow> bool" where
  "is_New_AbortController e = (case e of New_AbortController c \<Rightarrow> True | _ \<Rightarrow> False)"

definition session_add :: "effect list \<Rightarrow> task \<times> effect \<Rightarrow> effect list" where
  "session_add acc te =
     (if fst te = Controller
      then (if is_New_AbortController (snd te) then [snd te] else acc @ [snd te])
      else acc)"

definition session_effects :: "(task \<times> effect) list \<Rightarrow> effect list" where
  "session_effects tr = foldl session_add [] tr"

definition teardown_order :: "nat \<Rightarrow> effect list" where
  "teardown_order c =
     [New_AbortController c, Awaited Of_portUnreadable, Abort c, Awaited Of_portUnwritable,
      PortClose, Awaited Of_port_close, Writeln ''<DISCONNECTED>'']"

text \<open>
  What \<^verbatim>\<open>processWritableStream\<close> has done, and what it does when it enters an iteration
  (lines 164 to 177), with the shared controller and the one it makes.
\<close>

definition write_pump_effects :: "(task \<times> effect) list \<Rightarrow> effect list" where
  "write_pump_effects tr = map snd (filter (\<lambda>te. fst te = WritePump) tr)"

text \<open>
  The effect is not a \<^verbatim>\<open>pipeTo\<close> that may close or abort its destination or cancel its
  source when it ends. (With the three options set, the Streams standard lets a pipe do
  none of these; a pipe is the only thing the module does to a stream.)
\<close>

definition prevents_all :: "task \<times> effect \<Rightarrow> bool" where
  "prevents_all te =
     (case snd te of
        PipeTo src dst opts \<Rightarrow> preventClose opts \<and> preventAbort opts \<and> preventCancel opts
      | _ \<Rightarrow> True)"

definition iteration_effects :: "nat \<Rightarrow> nat \<Rightarrow> effect list" where
  "iteration_effects shared c =
     [New_AbortController c,
      PipeTo TermOutputForEcho TermInputFromEcho
        \<lparr>signal = c, preventClose = True, preventAbort = True, preventCancel = True\<rparr>,
      PipeTo TermOutputForPort PortWritable
        \<lparr>signal = shared, preventClose = True, preventAbort = True, preventCancel = True\<rparr>]"

subsection \<open>What holds in every reachable state\<close>

text \<open>
  Of the pumps: the shared controller is one that exists; no pump has thrown; an iteration
  of the write pump has begun with \<open>iteration_effects\<close>, under a controller made after
  the shared one, and its echo pipe exists; the write pump awaits the echo pipe only while
  it is pending, and with no exception to throw again; every \<^verbatim>\<open>pipeTo\<close> had its three
  options.
\<close>

definition pumps_inv :: "state \<Rightarrow> bool" where
  "pumps_inv s \<longleftrightarrow>
     streamController s < next_controller s
   \<and> (\<forall>e. portUnreadable s \<noteq> R_rejected e)
   \<and> (\<forall>e. portUnwritable s \<noteq> W_rejected e)
   \<and> (\<forall>c. portUnwritable s = W_await_pipeTo c \<longrightarrow>
          streamController s < c \<and> c < next_controller s \<and> localEchoClosed s \<noteq> E_undefined
        \<and> (\<exists>pre. write_pump_effects (trace s) = pre @ iteration_effects (streamController s) c))
   \<and> (\<forall>p. portUnwritable s = W_await_localEchoClosed p \<longrightarrow> p = None \<and> localEchoClosed s = E_pending)
   \<and> list_all prevents_all (trace s)"

text \<open>
  Of the controller, by the \<^verbatim>\<open>await\<close> at which \<^verbatim>\<open>processStreams\<close> is suspended: how far
  through \<open>teardown_order\<close> it has come, which pumps have returned, and the state of the
  page.
\<close>

definition controller_inv :: "state \<Rightarrow> bool" where
  "controller_inv s \<longleftrightarrow>
     (case processStreams_promise s of
        C_undefined \<Rightarrow>
          \<not> connected s \<and> session_effects (trace s) = []
        \<and> portUnreadable s = R_undefined \<and> portUnwritable s = W_undefined
      | C_await_portUnreadable \<Rightarrow>
          connected s \<and> ui s = ui_connected
        \<and> session_effects (trace s) = take 1 (teardown_order (streamController s))
        \<and> (portUnreadable s = R_await_pipeTo \<or> portUnreadable s = R_fulfilled)
        \<and> portUnwritable s \<noteq> W_undefined
      | C_await_portUnwritable \<Rightarrow>
          connected s \<and> ui s = ui_connected
        \<and> session_effects (trace s) = take 3 (teardown_order (streamController s))
        \<and> portUnreadable s = R_fulfilled \<and> portUnwritable s \<noteq> W_undefined
        \<and> signal_aborted (streamController s) s
      | C_await_close \<Rightarrow>
          connected s \<and> ui s = ui_connected
        \<and> session_effects (trace s) = take 5 (teardown_order (streamController s))
        \<and> portUnreadable s = R_fulfilled \<and> portUnwritable s = W_fulfilled
      | C_fulfilled \<Rightarrow>
          \<not> connected s \<and> ui s = ui_disconnected
        \<and> session_effects (trace s) = teardown_order (streamController s)
        \<and> portUnreadable s = R_fulfilled \<and> portUnwritable s = W_fulfilled
      | C_rejected e \<Rightarrow>
          connected s \<and> ui s = ui_connected
        \<and> session_effects (trace s) = take 5 (teardown_order (streamController s))
        \<and> portUnreadable s = R_fulfilled \<and> portUnwritable s = W_fulfilled)"

subsection \<open>A page, for the examples\<close>

definition example_form :: form where
  "example_form =
     \<lparr>baudRateSelector_value = ''9600'', customBaudRateInput_value = [],
      dataBitsSelector_value = ''8'', paritySelector_value = ''none'',
      stopBitsSelector_value = ''1'', flowControlCheckbox_checked = False\<rparr>"

text \<open>The module has loaded, the page is as it is served, the echo checkbox is checked.\<close>

definition example_start :: state where
  "example_start = init example_form ui_disconnected True"

text \<open>The value with which an aborted \<^verbatim>\<open>pipeTo\<close> rejects.\<close>

definition abort_error :: js_error where
  "abort_error = JsError ''AbortError'' ''The operation was aborted.''"



text \<open>The page after a click that connects: the session has just started.\<close>

definition connected_page :: state where
  "connected_page = run [Click Resolved Resolved] example_start"

text \<open>The same, when the device has been lost: the port has no streams any more.\<close>

definition readable_gone :: state where
  "readable_gone = run [Click Resolved Resolved, PortStreams False False] example_start"

text \<open>A page on which the user has asked for a custom baud rate and typed a word.\<close>

definition custom_form :: form where
  "custom_form =
     \<lparr>baudRateSelector_value = ''custom'', customBaudRateInput_value = ''fast'',
      dataBitsSelector_value = ''8'', paritySelector_value = ''none'',
      stopBitsSelector_value = ''1'', flowControlCheckbox_checked = False\<rparr>"

definition custom_start :: state where
  "custom_start = init custom_form ui_disconnected True"

text \<open>The session has started and the user has clicked on the button again, to stop it.\<close>

definition stop_clicked :: state where
  "stop_clicked = run [Click Resolved Resolved, Click Resolved Resolved] example_start"

text \<open>The echo checkbox after the events \<open>evs\<close>, when it was \<open>b\<close> before them.\<close>

fun last_echo :: "bool \<Rightarrow> event list \<Rightarrow> bool" where
  "last_echo b [] = b"
| "last_echo b (SetEcho b' # evs) = last_echo b' evs"
| "last_echo b (e # evs) = last_echo b evs"

section \<open>Invariants of the event loop\<close>

lemma session_effects_Nil: "session_effects [] = []"
  by (simp add: session_effects_def)

lemma session_effects_append:
  "session_effects (tr @ xs) = foldl session_add (session_effects tr) xs"
  by (simp add: session_effects_def)

lemma session_add_simps:
  "session_add acc (Controller, e) = (if is_New_AbortController e then [e] else acc @ [e])"
  "session_add acc (ClickHandler, e) = acc"
  "session_add acc (ReadPump, e) = acc"
  "session_add acc (WritePump, e) = acc"
  "session_add acc (Sink, e) = acc"
  by (simp_all add: session_add_def)

lemma is_New_simps:
  "is_New_AbortController (New_AbortController c)" "\<not> is_New_AbortController (Abort c)"
  "\<not> is_New_AbortController (PipeTo a b opts)" "\<not> is_New_AbortController RequestPort"
  "\<not> is_New_AbortController (PortOpen so)" "\<not> is_New_AbortController PortClose"
  "\<not> is_New_AbortController (Writeln l)" "\<not> is_New_AbortController (WriteUtf8 ch)"
  "\<not> is_New_AbortController (Awaited aw)"
  by (simp_all add: is_New_AbortController_def)

lemma foldl_session_add_WritePump:
  "foldl session_add acc (map (Pair WritePump) xs) = acc"
  by (induction xs) (simp_all add: session_add_simps)

lemmas session_simps =
  session_effects_append session_add_simps is_New_simps foldl_session_add_WritePump

lemma write_pump_effects_append:
  "write_pump_effects (tr @ xs) = write_pump_effects tr @ write_pump_effects xs"
  by (simp add: write_pump_effects_def)

lemma write_pump_effects_simps:
  "write_pump_effects [] = []"
  "write_pump_effects ((t, e) # xs) = (if t = WritePump then e # write_pump_effects xs else write_pump_effects xs)"
  by (simp_all add: write_pump_effects_def)

lemma lines_of_append: "lines_of (tr @ xs) = lines_of tr @ lines_of xs"
  by (simp add: lines_of_def)

lemma lines_of_simps:
  "lines_of [] = []"
  "lines_of ((t, e) # xs) = (case e of Writeln l \<Rightarrow> [l] | _ \<Rightarrow> []) @ lines_of xs"
  by (simp_all add: lines_of_def line_of_def)

lemma prevents_all_simps:
  "prevents_all (t, PipeTo a b opts) = (preventClose opts \<and> preventAbort opts \<and> preventCancel opts)"
  "prevents_all (t, New_AbortController c)" "prevents_all (t, Abort c)" "prevents_all (t, RequestPort)"
  "prevents_all (t, PortOpen so)" "prevents_all (t, PortClose)" "prevents_all (t, Writeln l)"
  "prevents_all (t, WriteUtf8 ch)" "prevents_all (t, Awaited aw)"
  by (simp_all add: prevents_all_def)

text \<open>Normal forms of the pumps.\<close>

lemma processReadableStream_nf:
  "processReadableStream s =
     s\<lparr>portUnreadable :=
          (if port_readable s \<and> streamController s \<notin> aborted s then R_await_pipeTo else R_fulfilled),
       trace := trace s @
          (if port_readable s \<and> streamController s \<notin> aborted s
           then [(ReadPump, PipeTo PortReadable TermInputFromPort
                    \<lparr>signal = streamController s, preventClose = True, preventAbort = True,
                     preventCancel = True\<rparr>)]
           else [])\<rparr>"
  by (simp add: processReadableStream_def emit_def signal_aborted_def)

lemma processReadableStream_pipe_settled_nf:
  "processReadableStream_pipe_settled r s =
     s\<lparr>portUnreadable :=
          (if port_readable s \<and> streamController s \<notin> aborted s then R_await_pipeTo else R_fulfilled),
       trace := trace s @
          (case r of
             Resolved \<Rightarrow> []
           | Rejected e \<Rightarrow>
               if err_name e \<noteq> ''AbortError''
               then [(ReadPump, Writeln (''<READ ERROR: '' @ err_message e @ ''>''))] else []) @
          (if port_readable s \<and> streamController s \<notin> aborted s
           then [(ReadPump, PipeTo PortReadable TermInputFromPort
                    \<lparr>signal = streamController s, preventClose = True, preventAbort = True,
                     preventCancel = True\<rparr>)]
           else [])\<rparr>"
  by (simp add: processReadableStream_pipe_settled_def processReadableStream_catch_def
      try_catch_def await_def writeln_def processReadableStream_nf emit_def split: settled.splits)

lemma processWritableStream_nf:
  "processWritableStream s =
     (if port_writable s \<and> streamController s \<notin> aborted s
      then s\<lparr>next_controller := Suc (next_controller s),
             aborted := aborted s - {next_controller s},
             portUnwritable := W_await_pipeTo (next_controller s),
             localEchoClosed := E_pending,
             trace := trace s @
               map (Pair WritePump) (iteration_effects (streamController s) (next_controller s))\<rparr>
      else s\<lparr>portUnwritable := W_fulfilled\<rparr>)"
  by (simp add: processWritableStream_def new_AbortController_def emit_def signal_aborted_def
      Let_def iteration_effects_def)


lemma processWritableStream_pipe_settled_nf:
  "processWritableStream_pipe_settled c r s =
     (let s2 = s\<lparr>aborted := insert c (aborted s),
                  trace := trace s @
                    (case r of
                       Resolved \<Rightarrow> []
                     | Rejected e \<Rightarrow>
                         if err_name e \<noteq> ''AbortError''
                         then [(WritePump, Writeln (''<WRITE ERROR: '' @ err_message e @ ''>''))]
                         else []) @
                    [(WritePump, Abort c)]\<rparr>
      in case localEchoClosed s of
           E_settled x \<Rightarrow> processWritableStream s2
         | _ \<Rightarrow> s2\<lparr>portUnwritable := W_await_localEchoClosed None\<rparr>)"
  by (simp add: processWritableStream_pipe_settled_def processWritableStream_catch_def
      processWritableStream_end_finally_def try_catch_def await_def writeln_def abort_def emit_def
      Let_def split: settled.splits echo_promise.splits)

text \<open>The pumps' invariant.\<close>

lemma list_all_prevents_iteration:
  "list_all prevents_all (map (Pair WritePump) (iteration_effects sc c))"
  by (simp add: iteration_effects_def prevents_all_simps)

lemma write_pump_effects_iteration:
  "write_pump_effects (map (Pair WritePump) (iteration_effects sc c)) = iteration_effects sc c"
  by (simp add: iteration_effects_def write_pump_effects_simps)

lemma emit_portUnwritable: "portUnwritable (emit t e s) = portUnwritable s"
  by (simp add: emit_def)

lemma pumps_inv_init: "pumps_inv (init f u b)"
  by (simp add: pumps_inv_def init_def)

lemma controller_inv_init: "controller_inv (init f u b)"
  by (simp add: controller_inv_def init_def session_effects_Nil)

lemma pumps_inv_emit:
  "pumps_inv s \<Longrightarrow> t \<noteq> WritePump \<Longrightarrow> prevents_all (t, e) \<Longrightarrow> pumps_inv (emit t e s)"
  by (simp add: pumps_inv_def emit_def write_pump_effects_append write_pump_effects_simps)

lemma pumps_inv_abort:
  "pumps_inv s \<Longrightarrow> t \<noteq> WritePump \<Longrightarrow> pumps_inv (abort t c s)"
  by (simp add: pumps_inv_def abort_def emit_def write_pump_effects_append write_pump_effects_simps
      prevents_all_simps)

lemma pumps_inv_updates:
  "pumps_inv (s\<lparr>processStreams_promise := p\<rparr>) = pumps_inv s"
  "pumps_inv (s\<lparr>connected := b\<rparr>) = pumps_inv s"
  "pumps_inv (s\<lparr>ui := u\<rparr>) = pumps_inv s"
  "pumps_inv (s\<lparr>echoCheckbox_checked := b\<rparr>) = pumps_inv s"
  "pumps_inv (s\<lparr>port_readable := b\<rparr>) = pumps_inv s"
  "pumps_inv (s\<lparr>port_writable := b\<rparr>) = pumps_inv s"
  by (simp_all add: pumps_inv_def)

lemma pumps_inv_processReadableStream:
  "pumps_inv s \<Longrightarrow> pumps_inv (processReadableStream s)"
  by (simp add: pumps_inv_def processReadableStream_nf write_pump_effects_append
      write_pump_effects_simps prevents_all_simps)

lemma pumps_inv_processReadableStream_pipe_settled:
  "pumps_inv s \<Longrightarrow> pumps_inv (processReadableStream_pipe_settled r s)"
  by (simp add: pumps_inv_def processReadableStream_pipe_settled_nf write_pump_effects_append
      write_pump_effects_simps prevents_all_simps split: settled.splits)

lemma pumps_inv_processWritableStream:
  assumes "streamController s < next_controller s" and "\<forall>e. portUnreadable s \<noteq> R_rejected e"
    and "list_all prevents_all (trace s)"
  shows "pumps_inv (processWritableStream s)"
  using assms
  by (simp add: pumps_inv_def processWritableStream_nf write_pump_effects_append
      write_pump_effects_iteration list_all_prevents_iteration)

lemma pumps_inv_processWritableStream_pipe_settled:
  assumes "pumps_inv s" and "portUnwritable s = W_await_pipeTo c"
  shows "pumps_inv (processWritableStream_pipe_settled c r s)"
proof -
  let ?s2 = "s\<lparr>aborted := insert c (aborted s),
                trace := trace s @
                  (case r of
                     Resolved \<Rightarrow> []
                   | Rejected e \<Rightarrow>
                       if err_name e \<noteq> ''AbortError''
                       then [(WritePump, Writeln (''<WRITE ERROR: '' @ err_message e @ ''>''))]
                       else []) @
                  [(WritePump, Abort c)]\<rparr>"
  have a: "streamController ?s2 < next_controller ?s2"
    and b: "\<forall>e. portUnreadable ?s2 \<noteq> R_rejected e"
    and f: "list_all prevents_all (trace ?s2)"
    using assms(1) by (simp_all add: pumps_inv_def prevents_all_simps split: settled.splits)
  have loop: "pumps_inv (processWritableStream ?s2)"
    by (rule pumps_inv_processWritableStream [OF a b f])
  have wait: "localEchoClosed s = E_pending \<Longrightarrow>
      pumps_inv (?s2\<lparr>portUnwritable := W_await_localEchoClosed None\<rparr>)"
    using a b f by (simp add: pumps_inv_def)
  have "localEchoClosed s \<noteq> E_undefined"
    using assms by (simp add: pumps_inv_def)
  then show ?thesis
    using loop wait
    by (cases "localEchoClosed s") (simp_all add: processWritableStream_pipe_settled_nf Let_def)
qed

lemma pumps_inv_localEchoClosed_settled:
  assumes "pumps_inv s"
  shows "pumps_inv (localEchoClosed_settled r s)"
proof (cases "localEchoClosed s = E_pending")
  case False
  then show ?thesis using assms by (simp add: localEchoClosed_settled_def)
next
  case True
  let ?s1 = "s\<lparr>localEchoClosed := E_settled r\<rparr>"
  have a: "streamController ?s1 < next_controller ?s1"
    and b: "\<forall>e. portUnreadable ?s1 \<noteq> R_rejected e"
    and f: "list_all prevents_all (trace ?s1)"
    using assms by (simp_all add: pumps_inv_def)
  have loop: "pumps_inv (processWritableStream ?s1)"
    by (rule pumps_inv_processWritableStream [OF a b f])
  show ?thesis
  proof (cases "portUnwritable s")
    case (W_await_localEchoClosed p)
    with assms have "p = None" by (simp add: pumps_inv_def)
    with W_await_localEchoClosed True loop show ?thesis
      by (simp add: localEchoClosed_settled_def processWritableStream_end_finally_def)
  qed (use True assms in \<open>simp_all add: localEchoClosed_settled_def pumps_inv_def\<close>)
qed


lemma pumps_inv_processStreams_closed:
  "pumps_inv s \<Longrightarrow> pumps_inv (processStreams_closed r s)"
  by (simp add: processStreams_closed_def await_def writeln_def pumps_inv_updates pumps_inv_emit
      prevents_all_simps split: settled.splits)

lemma pumps_inv_processStreams_close:
  "pumps_inv s \<Longrightarrow> pumps_inv (processStreams_close s)"
  by (simp add: processStreams_close_def pumps_inv_updates pumps_inv_emit prevents_all_simps)

lemma pumps_inv_processStreams_await_portUnwritable:
  "pumps_inv s \<Longrightarrow> pumps_inv (processStreams_await_portUnwritable s)"
  by (simp add: processStreams_await_portUnwritable_def pumps_inv_updates pumps_inv_emit
      pumps_inv_processStreams_close prevents_all_simps split: write_promise.splits)

lemma pumps_inv_processStreams_abort:
  "pumps_inv s \<Longrightarrow> pumps_inv (processStreams_abort s)"
  by (simp add: processStreams_abort_def pumps_inv_abort pumps_inv_updates)

lemma pumps_inv_processStreams_await_portUnreadable:
  "pumps_inv s \<Longrightarrow> pumps_inv (processStreams_await_portUnreadable s)"
  by (simp add: processStreams_await_portUnreadable_def pumps_inv_updates pumps_inv_emit
      pumps_inv_processStreams_abort prevents_all_simps split: read_promise.splits)

lemma pumps_inv_processStreams_resume:
  "pumps_inv s \<Longrightarrow> pumps_inv (processStreams_resume s)"
  by (simp add: processStreams_resume_def pumps_inv_processStreams_await_portUnreadable
      pumps_inv_processStreams_await_portUnwritable split: controller_promise.splits)

lemma pumps_inv_processStreams:
  assumes "pumps_inv s" and "portUnwritable s = W_undefined \<or> portUnwritable s = W_fulfilled"
  shows "pumps_inv (processStreams s)"
proof -
  let ?s2 = "(emit Controller (New_AbortController (next_controller s))
               (s\<lparr>next_controller := Suc (next_controller s),
                  aborted := aborted s - {next_controller s}\<rparr>))
             \<lparr>streamController := next_controller s\<rparr>"
  have "pumps_inv ?s2"
    using assms
    by (auto simp: pumps_inv_def emit_def write_pump_effects_append write_pump_effects_simps
        prevents_all_simps)
  then have "pumps_inv (processReadableStream ?s2)"
    by (rule pumps_inv_processReadableStream)
  then have "pumps_inv (processWritableStream (processReadableStream ?s2))"
    by (intro pumps_inv_processWritableStream) (simp_all add: pumps_inv_def)
  then show ?thesis
    by (simp add: processStreams_def new_AbortController_def Let_def pumps_inv_updates)
qed


text \<open>The controller's invariant.\<close>

lemma controller_inv_await_portUnwritable:
  assumes "connected s" and "ui s = ui_connected"
    and "session_effects (trace s) =
           [New_AbortController (streamController s), Awaited Of_portUnreadable,
            Abort (streamController s)]"
    and "portUnreadable s = R_fulfilled" and "signal_aborted (streamController s) s"
    and "portUnwritable s \<noteq> W_undefined" and "\<forall>e. portUnwritable s \<noteq> W_rejected e"
  shows "controller_inv (processStreams_await_portUnwritable s)"
  using assms
  by (cases "portUnwritable s")
     (simp_all add: processStreams_await_portUnwritable_def processStreams_close_def emit_def
        controller_inv_def session_simps teardown_order_def signal_aborted_def)

lemma controller_inv_await_portUnreadable:
  assumes "connected s" and "ui s = ui_connected"
    and "session_effects (trace s) = [New_AbortController (streamController s)]"
    and "portUnreadable s = R_await_pipeTo \<or> portUnreadable s = R_fulfilled"
    and "portUnwritable s \<noteq> W_undefined"
  shows "controller_inv (processStreams_await_portUnreadable s)"
  using assms
  by (auto simp: processStreams_await_portUnreadable_def processStreams_abort_def abort_def
      emit_def controller_inv_def session_simps teardown_order_def signal_aborted_def)

lemma processWritableStream_frame:
  "connected (processWritableStream s) = connected s"
  "ui (processWritableStream s) = ui s"
  "processStreams_promise (processWritableStream s) = processStreams_promise s"
  "streamController (processWritableStream s) = streamController s"
  "portUnreadable (processWritableStream s) = portUnreadable s"
  "session_effects (trace (processWritableStream s)) = session_effects (trace s)"
  "portUnwritable (processWritableStream s) \<noteq> W_undefined"
  "portUnwritable (processWritableStream s) \<noteq> W_rejected e"
  "sc < next_controller s \<Longrightarrow> (sc \<in> aborted (processWritableStream s)) = (sc \<in> aborted s)"
  by (auto simp: processWritableStream_nf session_simps)

lemma processWritableStream_pipe_settled_frame:
  "connected (processWritableStream_pipe_settled c r s) = connected s"
  "ui (processWritableStream_pipe_settled c r s) = ui s"
  "processStreams_promise (processWritableStream_pipe_settled c r s) = processStreams_promise s"
  "streamController (processWritableStream_pipe_settled c r s) = streamController s"
  "portUnreadable (processWritableStream_pipe_settled c r s) = portUnreadable s"
  "session_effects (trace (processWritableStream_pipe_settled c r s)) = session_effects (trace s)"
  "portUnwritable (processWritableStream_pipe_settled c r s) \<noteq> W_undefined"
  "portUnwritable (processWritableStream_pipe_settled c r s) \<noteq> W_rejected e"
  "sc < next_controller s \<Longrightarrow> sc \<in> aborted s \<Longrightarrow>
     sc \<in> aborted (processWritableStream_pipe_settled c r s)"
  by (simp_all add: processWritableStream_pipe_settled_nf Let_def processWritableStream_frame
      session_simps split: echo_promise.splits settled.splits)


lemma localEchoClosed_settled_frame:
  "connected (localEchoClosed_settled r s) = connected s"
  "ui (localEchoClosed_settled r s) = ui s"
  "processStreams_promise (localEchoClosed_settled r s) = processStreams_promise s"
  "streamController (localEchoClosed_settled r s) = streamController s"
  "portUnreadable (localEchoClosed_settled r s) = portUnreadable s"
  "session_effects (trace (localEchoClosed_settled r s)) = session_effects (trace s)"
  "sc < next_controller s \<Longrightarrow> (sc \<in> aborted (localEchoClosed_settled r s)) = (sc \<in> aborted s)"
  by (simp_all add: localEchoClosed_settled_def processWritableStream_end_finally_def Let_def
      processWritableStream_frame split: write_promise.splits option.splits)

lemma processReadableStream_frame:
  "connected (processReadableStream s) = connected s"
  "ui (processReadableStream s) = ui s"
  "processStreams_promise (processReadableStream s) = processStreams_promise s"
  "streamController (processReadableStream s) = streamController s"
  "next_controller (processReadableStream s) = next_controller s"
  "portUnwritable (processReadableStream s) = portUnwritable s"
  "aborted (processReadableStream s) = aborted s"
  "session_effects (trace (processReadableStream s)) = session_effects (trace s)"
  "portUnreadable (processReadableStream s) = R_await_pipeTo \<or>
   portUnreadable (processReadableStream s) = R_fulfilled"
  by (simp_all add: processReadableStream_nf session_simps)

lemma processReadableStream_pipe_settled_frame:
  "connected (processReadableStream_pipe_settled r s) = connected s"
  "ui (processReadableStream_pipe_settled r s) = ui s"
  "processStreams_promise (processReadableStream_pipe_settled r s) = processStreams_promise s"
  "streamController (processReadableStream_pipe_settled r s) = streamController s"
  "portUnwritable (processReadableStream_pipe_settled r s) = portUnwritable s"
  "aborted (processReadableStream_pipe_settled r s) = aborted s"
  "session_effects (trace (processReadableStream_pipe_settled r s)) = session_effects (trace s)"
  "portUnreadable (processReadableStream_pipe_settled r s) = R_await_pipeTo \<or>
   portUnreadable (processReadableStream_pipe_settled r s) = R_fulfilled"
  by (simp_all add: processReadableStream_pipe_settled_nf session_simps split: settled.splits)

lemma controller_inv_processStreams:
  assumes "connected s" and "ui s = ui_connected"
  shows "controller_inv (processStreams s)"
proof -
  let ?s2 = "(emit Controller (New_AbortController (next_controller s))
               (s\<lparr>next_controller := Suc (next_controller s),
                  aborted := aborted s - {next_controller s}\<rparr>))
             \<lparr>streamController := next_controller s\<rparr>"
  let ?s4 = "processWritableStream (processReadableStream ?s2)"
  have "connected ?s4" "ui ?s4 = ui_connected"
    using assms by (simp_all add: processWritableStream_frame processReadableStream_frame emit_def)
  moreover have "session_effects (trace ?s4) = [New_AbortController (streamController ?s4)]"
    by (simp add: processWritableStream_frame processReadableStream_frame emit_def session_simps)
  moreover have "portUnreadable ?s4 = R_await_pipeTo \<or> portUnreadable ?s4 = R_fulfilled"
    using processReadableStream_frame(9) [of ?s2] by (simp add: processWritableStream_frame)
  moreover have "portUnwritable ?s4 \<noteq> W_undefined"
    by (simp add: processWritableStream_frame)
  ultimately have "controller_inv (?s4\<lparr>processStreams_promise := C_await_portUnreadable\<rparr>)"
    by (simp add: controller_inv_def teardown_order_def)
  then show ?thesis
    by (simp add: processStreams_def new_AbortController_def Let_def)
qed

lemma controller_inv_not_connected:
  assumes "controller_inv s" and "\<not> connected s"
  shows "portUnwritable s = W_undefined \<or> portUnwritable s = W_fulfilled"
  using assms by (auto simp: controller_inv_def split: controller_promise.splits)

lemma controller_inv_click:
  assumes "controller_inv s"
  shows "controller_inv (click chosen opened s)"
proof (cases "connected s")
  case True
  with assms show ?thesis
    by (auto simp: click_def abort_def emit_def controller_inv_def session_simps signal_aborted_def
        split: controller_promise.splits)
next
  case False
  have other: "controller_inv (emit ClickHandler e s')" if "controller_inv s'" for e s'
    using that
    by (auto simp: emit_def controller_inv_def session_simps signal_aborted_def
        split: controller_promise.splits)
  have start: "controller_inv (processStreams
      (emit ClickHandler e (s'\<lparr>connected := True, ui := ui_connected\<rparr>)))" for s' e
    by (rule controller_inv_processStreams) (simp_all add: emit_def)
  show ?thesis
    using False assms
    by (simp add: click_def requestNewPort_def connectToPort_def requestNewPort_catch_def
        try_catch_def await_def writeln_def other start Let_def
        split: settled.splits)
qed


lemma controller_inv_emit:
  "controller_inv s \<Longrightarrow> t \<noteq> Controller \<Longrightarrow> controller_inv (emit t e s)"
  by (auto simp: emit_def controller_inv_def session_effects_append session_add_def
      signal_aborted_def split: controller_promise.splits)

lemma controller_inv_closed:
  assumes "controller_inv s" and "processStreams_promise s = C_await_close"
  shows "controller_inv (processStreams_closed r s)"
  using assms
  by (cases r)
     (simp_all add: processStreams_closed_def await_def writeln_def emit_def controller_inv_def
        session_simps teardown_order_def)

lemma controller_inv_resume:
  assumes "pumps_inv s" and "controller_inv s"
  shows "controller_inv (processStreams_resume s)"
proof (cases "processStreams_promise s")
  case C_await_portUnreadable
  with assms(2) have "controller_inv (processStreams_await_portUnreadable s)"
    by (intro controller_inv_await_portUnreadable)
       (auto simp: controller_inv_def teardown_order_def)
  with C_await_portUnreadable show ?thesis
    by (simp add: processStreams_resume_def)
next
  case C_await_portUnwritable
  with assms have "controller_inv (processStreams_await_portUnwritable s)"
    by (intro controller_inv_await_portUnwritable)
       (auto simp: controller_inv_def teardown_order_def pumps_inv_def)
  with C_await_portUnwritable show ?thesis
    by (simp add: processStreams_resume_def)
qed (use assms in \<open>simp_all add: processStreams_resume_def\<close>)

lemma controller_inv_read_settled:
  assumes "controller_inv s" and "portUnreadable s = R_await_pipeTo"
  shows "controller_inv (processReadableStream_pipe_settled r s)"
proof -
  from assms have "processStreams_promise s = C_await_portUnreadable"
    by (cases "processStreams_promise s") (auto simp: controller_inv_def)
  with assms(1) show ?thesis
    using processReadableStream_pipe_settled_frame(8) [of r s]
    by (simp add: controller_inv_def processReadableStream_pipe_settled_frame)
qed

lemma controller_inv_write_moved:
  assumes "controller_inv s" and "portUnwritable s \<noteq> W_undefined" and "portUnwritable s \<noteq> W_fulfilled"
    and "connected s' = connected s" and "ui s' = ui s"
    and "processStreams_promise s' = processStreams_promise s"
    and "streamController s' = streamController s"
    and "session_effects (trace s') = session_effects (trace s)"
    and "portUnreadable s' = portUnreadable s"
    and "streamController s \<in> aborted s \<Longrightarrow> streamController s \<in> aborted s'"
    and "portUnwritable s' \<noteq> W_undefined"
  shows "controller_inv s'"
proof -
  from assms(1,2,3) consider
      (reading) "processStreams_promise s = C_await_portUnreadable"
    | (writing) "processStreams_promise s = C_await_portUnwritable"
    by (cases "processStreams_promise s") (auto simp: controller_inv_def)
  then show ?thesis
    using assms by cases (simp_all add: controller_inv_def signal_aborted_def)
qed

lemma controller_inv_write_settled:
  assumes "pumps_inv s" and "controller_inv s" and "portUnwritable s = W_await_pipeTo c"
  shows "controller_inv (processWritableStream_pipe_settled c r s)"
proof -
  from assms(1) have n: "streamController s < next_controller s"
    by (simp add: pumps_inv_def)
  show ?thesis
    by (rule controller_inv_write_moved [of s])
       (use assms n in \<open>simp_all add: processWritableStream_pipe_settled_frame\<close>)
qed

lemma controller_inv_echo_settled:
  assumes "pumps_inv s" and "controller_inv s"
  shows "controller_inv (localEchoClosed_settled r s)"
proof (cases "\<exists>p. portUnwritable s = W_await_localEchoClosed p \<and> localEchoClosed s = E_pending")
  case True
  then obtain p where p: "portUnwritable s = W_await_localEchoClosed p" "localEchoClosed s = E_pending"
    by blast
  from assms(1) have n: "streamController s < next_controller s"
    by (simp add: pumps_inv_def)
  from assms(1) p have "p = None"
    by (simp add: pumps_inv_def)
  with p have u: "portUnwritable (localEchoClosed_settled r s) \<noteq> W_undefined"
    by (simp add: localEchoClosed_settled_def processWritableStream_end_finally_def
        processWritableStream_frame)
  show ?thesis
    by (rule controller_inv_write_moved [of s])
       (use assms n p u in \<open>simp_all add: localEchoClosed_settled_frame\<close>)
next
  case False
  then have same: "localEchoClosed_settled r s = s \<or>
      localEchoClosed_settled r s = s\<lparr>localEchoClosed := E_settled r\<rparr>"
    by (cases "portUnwritable s") (auto simp: localEchoClosed_settled_def)
  have "controller_inv (s\<lparr>localEchoClosed := E_settled r\<rparr>)"
    using assms(2)
    by (auto simp: controller_inv_def signal_aborted_def split: controller_promise.splits)
  with assms(2) same show ?thesis
    by auto
qed

lemma controller_inv_step:
  assumes "pumps_inv s" and "controller_inv s"
  shows "controller_inv (step e s)"
proof (cases e)
  case (Click chosen opened)
  with assms show ?thesis by (simp add: controller_inv_click)
next
  case (SetEcho b)
  with assms show ?thesis
    by (auto simp: controller_inv_def signal_aborted_def split: controller_promise.splits)
next
  case (PortStreams r w)
  with assms show ?thesis
    by (auto simp: controller_inv_def signal_aborted_def split: controller_promise.splits)
next
  case (ReadPipeSettled r)
  with assms show ?thesis by (simp add: controller_inv_read_settled)
next
  case ControllerResumed
  with assms show ?thesis by (simp add: controller_inv_resume)
next
  case (WritePipeSettled r)
  with assms show ?thesis
    by (cases "portUnwritable s") (simp_all add: controller_inv_write_settled)
next
  case (EchoPipeSettled r)
  with assms show ?thesis by (simp add: controller_inv_echo_settled)
next
  case (ClosePortSettled r)
  with assms show ?thesis by (simp add: controller_inv_closed)
next
  case (PortChunk chunk)
  with assms show ?thesis
    by (simp add: termInputFromPort_write_def writeUtf8_def controller_inv_emit)
next
  case (EchoChunk chunk)
  with assms show ?thesis
    by (simp add: termInputFromEcho_write_def writeUtf8_def controller_inv_emit)
qed

lemma pumps_inv_step:
  assumes "pumps_inv s" and "controller_inv s"
  shows "pumps_inv (step e s)"
proof (cases e)
  case (Click chosen opened)
  show ?thesis
  proof (cases "connected s")
    case True
    with Click assms show ?thesis by (simp add: click_def pumps_inv_abort)
  next
    case False
    with assms(2) have w: "portUnwritable s = W_undefined \<or> portUnwritable s = W_fulfilled"
      by (rule controller_inv_not_connected)
    show ?thesis
      using False Click assms(1) w
      by (auto simp: click_def requestNewPort_def connectToPort_def requestNewPort_catch_def
          try_catch_def await_def writeln_def pumps_inv_emit prevents_all_simps Let_def
          pumps_inv_updates emit_portUnwritable
          intro!: pumps_inv_processStreams split: settled.splits)
  qed
next
  case (WritePipeSettled r)
  with assms show ?thesis
    by (cases "portUnwritable s")
       (simp_all add: pumps_inv_processWritableStream_pipe_settled)
qed (use assms in \<open>simp_all add: pumps_inv_updates pumps_inv_processStreams_resume
      pumps_inv_processReadableStream_pipe_settled pumps_inv_localEchoClosed_settled
      pumps_inv_processStreams_closed termInputFromPort_write_def termInputFromEcho_write_def
      writeUtf8_def pumps_inv_emit prevents_all_simps\<close>)

lemma inv_run:
  "pumps_inv s \<Longrightarrow> controller_inv s \<Longrightarrow> pumps_inv (run evs s) \<and> controller_inv (run evs s)"
  by (induction evs arbitrary: s) (simp_all add: pumps_inv_step controller_inv_step)

lemma inv_reachable:
  "pumps_inv (run evs (init f u b))" "controller_inv (run evs (init f u b))"
  using inv_run [OF pumps_inv_init controller_inv_init] by simp_all

section \<open>The claims\<close>

subsection \<open>C1: a failing read\<close>

text \<open>
  Claim C1: after a failure of the read side that is not a cancellation, the read pump
  writes a read error and leaves its loop; the failure ends the session, the pump does not
  start another transfer, and the controller takes the pump's return for the end of the
  session.

  The pump's loop tests \<^verbatim>\<open>port.readable\<close> and the scope again after the \<^verbatim>\<open>catch\<close> block
  (line 190), and the comment at lines 142 and 143 says that the port is read until an
  error that is unrecoverable. In the session that has just started, a transfer fails with
  a buffer overrun while the port still has its readable stream: the pump writes the read
  error and calls \<^verbatim>\<open>pipeTo\<close> again; the controller still awaits the pump and the page is
  still connected.
\<close>

theorem C1_counterexample:
  "portUnreadable
     (step (ReadPipeSettled (Rejected (JsError ''BufferOverrunError'' ''overrun''))) connected_page) =
     R_await_pipeTo
   \<and> processStreams_promise
     (step (ReadPipeSettled (Rejected (JsError ''BufferOverrunError'' ''overrun''))) connected_page) =
     C_await_portUnreadable
   \<and> connected
     (step (ReadPipeSettled (Rejected (JsError ''BufferOverrunError'' ''overrun''))) connected_page)
   \<and> trace
     (step (ReadPipeSettled (Rejected (JsError ''BufferOverrunError'' ''overrun''))) connected_page) =
     trace connected_page @
     [(ReadPump, Writeln ''<READ ERROR: overrun>''),
      (ReadPump, PipeTo PortReadable TermInputFromPort
         \<lparr>signal = 1, preventClose = True, preventAbort = True, preventCancel = True\<rparr>)]"
  by code_simp

text \<open>
  What \<^verbatim>\<open>processStreams\<close> does when it is resumed at line 144, by the state of the read
  pump.
\<close>

lemma processStreams_resume_pending:
  assumes "processStreams_promise s = C_await_portUnreadable" and "portUnreadable s = R_await_pipeTo"
  shows "processStreams_resume s = s"
  using assms
  by (cases s) (simp add: processStreams_resume_def processStreams_await_portUnreadable_def)

lemma processStreams_resume_returned:
  assumes "processStreams_promise s = C_await_portUnreadable" and "portUnreadable s = R_fulfilled"
  shows "processStreams_resume s =
     s\<lparr>aborted := insert (streamController s) (aborted s),
       processStreams_promise := C_await_portUnwritable,
       trace := trace s @
         [(Controller, Awaited Of_portUnreadable), (Controller, Abort (streamController s))]\<rparr>"
  using assms
  by (simp add: processStreams_resume_def processStreams_await_portUnreadable_def
      processStreams_abort_def abort_def emit_def)

text \<open>
  Between the return of the read pump and the resumption of \<^verbatim>\<open>processStreams\<close>, whatever
  else runs leaves the controller where it is.
\<close>

lemma returned_step:
  assumes "controller_inv s" and "processStreams_promise s = C_await_portUnreadable"
    and "portUnreadable s = R_fulfilled" and "ev \<noteq> ControllerResumed"
  shows "processStreams_promise (step ev s) = C_await_portUnreadable
       \<and> portUnreadable (step ev s) = R_fulfilled
       \<and> streamController (step ev s) = streamController s"
proof -
  from assms(1,2) have c: "connected s"
    by (simp add: controller_inv_def)
  show ?thesis
    using assms c
    by (cases ev)
       (simp_all add: click_def abort_def emit_def processWritableStream_pipe_settled_frame
          localEchoClosed_settled_frame termInputFromEcho_write_def writeUtf8_def
          split: write_promise.splits)
qed

lemma returned_run:
  assumes "pumps_inv s" and "controller_inv s"
    and "processStreams_promise s = C_await_portUnreadable"
    and "portUnreadable s = R_fulfilled" and "ControllerResumed \<notin> set mid"
  shows "processStreams_promise (run mid s) = C_await_portUnreadable
       \<and> portUnreadable (run mid s) = R_fulfilled
       \<and> streamController (run mid s) = streamController s"
  using assms
proof (induction mid arbitrary: s)
  case Nil
  then show ?case by simp
next
  case (Cons ev mid)
  from Cons.prems have ev: "ev \<noteq> ControllerResumed" and mid: "ControllerResumed \<notin> set mid"
    by auto
  note st = returned_step [OF Cons.prems(2,3,4) ev]
  have "pumps_inv (step ev s)" "controller_inv (step ev s)"
    using Cons.prems(1,2) by (simp_all add: pumps_inv_step controller_inv_step)
  from Cons.IH [OF this _ _ mid] st show ?case
    by simp
qed

text \<open>
  Claim C1, amended: after a failure of the read side that is not a cancellation, the
  read pump writes a read error; then it starts another transfer if the port still has a
  readable stream and the scope is not cancelled, and returns otherwise, and this is all
  that happens when the failure is delivered. While the pump goes on, the controller,
  when it is resumed, stays where it is. Once the pump has returned, the controller, when
  it is resumed, whatever else has run in between, goes on to the teardown: it cancels the
  scope and awaits the write pump.
\<close>

theorem C1_read_error:
  assumes "s = run evs (init f u b)" and "portUnreadable s = R_await_pipeTo"
    and "err_name e \<noteq> ''AbortError''"
  shows "step (ReadPipeSettled (Rejected e)) s =
           s\<lparr>portUnreadable :=
                (if port_readable s \<and> \<not> signal_aborted (streamController s) s
                 then R_await_pipeTo else R_fulfilled),
             trace := trace s @ [(ReadPump, Writeln (''<READ ERROR: '' @ err_message e @ ''>''))] @
                (if port_readable s \<and> \<not> signal_aborted (streamController s) s
                 then [(ReadPump, PipeTo PortReadable TermInputFromPort
                          \<lparr>signal = streamController s, preventClose = True, preventAbort = True,
                           preventCancel = True\<rparr>)]
                 else [])\<rparr>
       \<and> processStreams_promise s = C_await_portUnreadable
       \<and> (port_readable s \<and> \<not> signal_aborted (streamController s) s \<longrightarrow>
            step ControllerResumed (step (ReadPipeSettled (Rejected e)) s) =
              step (ReadPipeSettled (Rejected e)) s)
       \<and> (\<not> (port_readable s \<and> \<not> signal_aborted (streamController s) s) \<longrightarrow>
            (\<forall>mid. ControllerResumed \<notin> set mid \<longrightarrow>
               step ControllerResumed (run mid (step (ReadPipeSettled (Rejected e)) s)) =
                 (run mid (step (ReadPipeSettled (Rejected e)) s))
                 \<lparr>aborted := insert (streamController s)
                     (aborted (run mid (step (ReadPipeSettled (Rejected e)) s))),
                   processStreams_promise := C_await_portUnwritable,
                   trace := trace (run mid (step (ReadPipeSettled (Rejected e)) s)) @
                     [(Controller, Awaited Of_portUnreadable),
                      (Controller, Abort (streamController s))]\<rparr>))"
proof -
  let ?s1 = "step (ReadPipeSettled (Rejected e)) s"
  have inv: "pumps_inv s" "controller_inv s"
    using assms(1) by (simp_all add: inv_reachable)
  with assms(2) have p: "processStreams_promise s = C_await_portUnreadable"
    by (cases "processStreams_promise s") (auto simp: controller_inv_def)
  have st: "?s1 = processReadableStream_pipe_settled (Rejected e) s"
    using assms(2) by simp
  have inv1: "pumps_inv ?s1" "controller_inv ?s1"
    using inv by (simp_all only: pumps_inv_step controller_inv_step)
  have p1: "processStreams_promise ?s1 = C_await_portUnreadable"
    and c1: "streamController ?s1 = streamController s"
    using p unfolding st by (simp_all add: processReadableStream_pipe_settled_frame)
  have eq: "?s1 =
           s\<lparr>portUnreadable :=
                (if port_readable s \<and> \<not> signal_aborted (streamController s) s
                 then R_await_pipeTo else R_fulfilled),
             trace := trace s @ [(ReadPump, Writeln (''<READ ERROR: '' @ err_message e @ ''>''))] @
                (if port_readable s \<and> \<not> signal_aborted (streamController s) s
                 then [(ReadPump, PipeTo PortReadable TermInputFromPort
                          \<lparr>signal = streamController s, preventClose = True, preventAbort = True,
                           preventCancel = True\<rparr>)]
                 else [])\<rparr>"
    using assms(3) unfolding st
    by (simp add: processReadableStream_pipe_settled_nf signal_aborted_def)
  have again: "step ControllerResumed ?s1 = ?s1"
    if "port_readable s \<and> \<not> signal_aborted (streamController s) s"
  proof -
    from that have "portUnreadable ?s1 = R_await_pipeTo"
      unfolding st by (simp add: processReadableStream_pipe_settled_nf signal_aborted_def)
    with p1 show ?thesis
      by (simp only: step.simps processStreams_resume_pending)
  qed
  have returned: "step ControllerResumed (run mid ?s1) =
                 (run mid ?s1)
                 \<lparr>aborted := insert (streamController s) (aborted (run mid ?s1)),
                   processStreams_promise := C_await_portUnwritable,
                   trace := trace (run mid ?s1) @
                     [(Controller, Awaited Of_portUnreadable),
                      (Controller, Abort (streamController s))]\<rparr>"
    if "\<not> (port_readable s \<and> \<not> signal_aborted (streamController s) s)"
      and "ControllerResumed \<notin> set mid" for mid
  proof -
    from that(1) have "portUnreadable ?s1 = R_fulfilled"
      unfolding st by (auto simp: processReadableStream_pipe_settled_nf signal_aborted_def)
    from returned_run [OF inv1 p1 this that(2)] c1
    have "processStreams_promise (run mid ?s1) = C_await_portUnreadable"
      "portUnreadable (run mid ?s1) = R_fulfilled"
      "streamController (run mid ?s1) = streamController s"
      by simp_all
    from processStreams_resume_returned [OF this(1,2)] this(3) show ?thesis
      by (simp only: step.simps)
  qed
  from eq p again returned show ?thesis
    by blast
qed

text \<open>
  The device is lost, and both transfers fail. The read pump writes its error and
  returns; the write pump writes its error and aborts the echo pipe; then the controller
  is resumed, and cancels the scope.
\<close>

theorem C1_read_error_witness:
  "portUnreadable readable_gone = R_await_pipeTo
   \<and> err_name (JsError ''NetworkError'' ''The device has been lost.'') \<noteq> ''AbortError''
   \<and> portUnreadable
        (step (ReadPipeSettled (Rejected (JsError ''NetworkError'' ''The device has been lost.'')))
           readable_gone) = R_fulfilled
   \<and> trace
        (step (ReadPipeSettled (Rejected (JsError ''NetworkError'' ''The device has been lost.'')))
           readable_gone) =
      trace readable_gone @ [(ReadPump, Writeln ''<READ ERROR: The device has been lost.>'')]
   \<and> processStreams_promise
        (step (ReadPipeSettled (Rejected (JsError ''NetworkError'' ''The device has been lost.'')))
           readable_gone) = C_await_portUnreadable
   \<and> processStreams_promise
        (step ControllerResumed
           (run [WritePipeSettled (Rejected (JsError ''NetworkError'' ''The device has been lost.''))]
              (step (ReadPipeSettled (Rejected (JsError ''NetworkError'' ''The device has been lost.'')))
                 readable_gone))) = C_await_portUnwritable
   \<and> trace
        (step ControllerResumed
           (run [WritePipeSettled (Rejected (JsError ''NetworkError'' ''The device has been lost.''))]
              (step (ReadPipeSettled (Rejected (JsError ''NetworkError'' ''The device has been lost.'')))
                 readable_gone))) =
      trace readable_gone @
        [(ReadPump, Writeln ''<READ ERROR: The device has been lost.>''),
         (WritePump, Writeln ''<WRITE ERROR: The device has been lost.>''),
         (WritePump, Abort 2),
         (Controller, Awaited Of_portUnreadable), (Controller, Abort 1)]"
proof -
  let ?e = "JsError ''NetworkError'' ''The device has been lost.''"
  let ?s1 = "step (ReadPipeSettled (Rejected ?e)) readable_gone"
  let ?t = "run [WritePipeSettled (Rejected ?e)] ?s1"
  have h: "readable_gone =
      run [Click Resolved Resolved, PortStreams False False] (init example_form ui_disconnected True)"
    by (simp only: readable_gone_def example_start_def)
  have r: "portUnreadable readable_gone = R_await_pipeTo"
    by code_simp
  have n: "err_name ?e \<noteq> ''AbortError''"
    by simp
  have c: "port_readable readable_gone = False" "streamController readable_gone = 1"
    by code_simp+
  have m: "ControllerResumed \<notin> set [WritePipeSettled (Rejected ?e)]"
    by simp
  have w: "trace ?t =
      trace readable_gone @
        [(ReadPump, Writeln ''<READ ERROR: The device has been lost.>''),
         (WritePump, Writeln ''<WRITE ERROR: The device has been lost.>''),
         (WritePump, Abort 2)]"
    by code_simp
  note t = C1_read_error [OF h r n]
  from t [THEN conjunct1] have eq: "?s1 =
      readable_gone\<lparr>portUnreadable := R_fulfilled,
        trace := trace readable_gone @
          [(ReadPump, Writeln ''<READ ERROR: The device has been lost.>'')]\<rparr>"
    by (simp only: c simp_thms if_False js_error.sel append.simps append_Nil2)
  from t have p: "processStreams_promise readable_gone = C_await_portUnreadable"
    by blast
  from t [THEN conjunct2, THEN conjunct2, THEN conjunct2]
  have "\<forall>mid. ControllerResumed \<notin> set mid \<longrightarrow>
      step ControllerResumed (run mid ?s1) =
        (run mid ?s1)
        \<lparr>aborted := insert 1 (aborted (run mid ?s1)),
          processStreams_promise := C_await_portUnwritable,
          trace := trace (run mid ?s1) @
            [(Controller, Awaited Of_portUnreadable), (Controller, Abort 1)]\<rparr>"
    by (simp only: c simp_thms if_False)
  with m have res: "step ControllerResumed ?t =
        ?t\<lparr>aborted := insert 1 (aborted ?t),
          processStreams_promise := C_await_portUnwritable,
          trace := trace ?t @
            [(Controller, Awaited Of_portUnreadable), (Controller, Abort 1)]\<rparr>"
    by blast
  have g1: "portUnreadable ?s1 = R_fulfilled"
    and g2: "trace ?s1 =
      trace readable_gone @ [(ReadPump, Writeln ''<READ ERROR: The device has been lost.>'')]"
    and g3: "processStreams_promise ?s1 = C_await_portUnreadable"
    unfolding eq using p by simp_all
  have g4: "processStreams_promise (step ControllerResumed ?t) = C_await_portUnwritable"
    and g5: "trace (step ControllerResumed ?t) =
      trace readable_gone @
        [(ReadPump, Writeln ''<READ ERROR: The device has been lost.>''),
         (WritePump, Writeln ''<WRITE ERROR: The device has been lost.>''),
         (WritePump, Abort 2),
         (Controller, Awaited Of_portUnreadable), (Controller, Abort 1)]"
    unfolding res using w by simp_all
  from r n g1 g2 g3 g4 g5 show ?thesis
    by blast
qed

subsection \<open>C3: the forms of the annotations\<close>

text \<open>
  Claim C3: every annotation written to the display is one of \<^verbatim>\<open><CONNECTED>\<close>,
  \<^verbatim>\<open><DISCONNECTED>\<close>, \<^verbatim>\<open><CONNECT ERROR: ...>\<close>, \<^verbatim>\<open><READ ERROR: ...>\<close>, \<^verbatim>\<open><WRITE ERROR: ...>\<close>, and
  the connect error has both angle brackets. The module's connect error has no closing
  bracket (line 102), where its read error and its write error have one (lines 180 and
  200): the port is chosen, opening it fails with the message \<^verbatim>\<open>access denied\<close>, and the line
  written is \<^verbatim>\<open><CONNECT ERROR: access denied\<close>.
\<close>

theorem C3_connect_error_unclosed:
  "lines_of (trace (step (Click Resolved (Rejected (JsError ''SecurityError'' ''access denied'')))
       example_start)) = [''<CONNECT ERROR: access denied'']"
  by code_simp

subsection \<open>C4: the order of the teardown\<close>



subsection \<open>C2: a failing close\<close>






subsection \<open>C5: the echo is gated chunk by chunk\<close>

text \<open>
  No function of the module writes the echo checkbox: after any event it is what it was,
  unless the event is the user setting it.
\<close>

lemma echo_frame_pumps:
  "echoCheckbox_checked (emit t x s) = echoCheckbox_checked s"
  "echoCheckbox_checked (abort t c s) = echoCheckbox_checked s"
  "echoCheckbox_checked (processReadableStream s) = echoCheckbox_checked s"
  "echoCheckbox_checked (processReadableStream_pipe_settled r s) = echoCheckbox_checked s"
  "echoCheckbox_checked (processWritableStream s) = echoCheckbox_checked s"
  by (simp_all add: emit_def abort_def processReadableStream_nf
      processReadableStream_pipe_settled_nf processWritableStream_nf)

lemma echo_frame_write_settled:
  "echoCheckbox_checked (processWritableStream_pipe_settled c r s) = echoCheckbox_checked s"
  "echoCheckbox_checked (localEchoClosed_settled r s) = echoCheckbox_checked s"
  by (simp_all add: processWritableStream_pipe_settled_nf localEchoClosed_settled_def Let_def
      processWritableStream_end_finally_def echo_frame_pumps
      split: echo_promise.splits write_promise.splits option.splits)

lemma echo_frame_closed:
  "echoCheckbox_checked (processStreams_closed r s) = echoCheckbox_checked s"
  by (simp add: processStreams_closed_def await_def writeln_def echo_frame_pumps
      split: settled.splits)

lemma echo_frame_await_portUnwritable:
  "echoCheckbox_checked (processStreams_await_portUnwritable s) = echoCheckbox_checked s"
  by (simp add: processStreams_await_portUnwritable_def processStreams_close_def echo_frame_pumps
      split: write_promise.splits)

lemma echo_frame_await_portUnreadable:
  "echoCheckbox_checked (processStreams_await_portUnreadable s) = echoCheckbox_checked s"
  by (simp add: processStreams_await_portUnreadable_def processStreams_abort_def
      echo_frame_await_portUnwritable echo_frame_pumps split: read_promise.splits)

lemma echo_frame_resume:
  "echoCheckbox_checked (processStreams_resume s) = echoCheckbox_checked s"
  by (simp add: processStreams_resume_def echo_frame_await_portUnreadable
      echo_frame_await_portUnwritable split: controller_promise.splits)

lemma echo_frame_processStreams:
  "echoCheckbox_checked (processStreams s) = echoCheckbox_checked s"
  by (simp add: processStreams_def new_AbortController_def Let_def
      echo_frame_await_portUnreadable echo_frame_pumps)

lemma echo_frame_click:
  "echoCheckbox_checked (click chosen opened s) = echoCheckbox_checked s"
  by (simp add: click_def requestNewPort_def connectToPort_def requestNewPort_catch_def
      try_catch_def await_def writeln_def Let_def echo_frame_processStreams echo_frame_pumps
      split: settled.splits)

lemma echo_flag_step:
  "echoCheckbox_checked (step ev s) = (case ev of SetEcho b \<Rightarrow> b | _ \<Rightarrow> echoCheckbox_checked s)"
  by (cases ev)
     (simp_all add: echo_frame_click echo_frame_resume echo_frame_write_settled echo_frame_pumps
        echo_frame_closed termInputFromPort_write_def termInputFromEcho_write_def writeUtf8_def
        split: write_promise.splits)

lemma echo_flag_run:
  "echoCheckbox_checked (run evs s) = last_echo (echoCheckbox_checked s) evs"
proof (induction evs arbitrary: s)
  case Nil
  show ?case by simp
next
  case (Cons ev evs)
  show ?case
    by (cases ev) (simp_all add: Cons.IH echo_flag_step del: step.simps)
qed

text \<open>
  Claim C5: whether a chunk that goes through the echo branch is mirrored to the display
  is decided by the echo checkbox at the moment the chunk is delivered, not by a value
  kept from the start of the loop; a toggle takes effect on the next chunk.

  Whatever state the module was in and whatever has happened since (\<open>evs\<close>: toggles,
  iterations of the pumps, whole sessions), a chunk that the pending echo pipe delivers
  is written to the terminal if and only if the checkbox is checked after the last toggle
  of \<open>evs\<close> (or was checked before \<open>evs\<close>, when \<open>evs\<close> has no toggle); nothing else
  is written.
\<close>

theorem C5_echo_gated_per_chunk:
  assumes "localEchoClosed (run evs s) = E_pending"
  shows "trace (step (EchoChunk chunk) (run evs s)) =
           trace (run evs s) @
           (if last_echo (echoCheckbox_checked s) evs then [(Sink, WriteUtf8 chunk)] else [])"
  using assms
  by (simp add: termInputFromEcho_write_def writeUtf8_def emit_def echo_flag_run)

text \<open>
  The session starts with the echo on; a first chunk is mirrored; the user turns the echo
  off; the next chunk is not mirrored.
\<close>

theorem C5_echo_gated_per_chunk_witness:
  "echoCheckbox_checked connected_page
   \<and> localEchoClosed (run [EchoChunk ''a'', SetEcho False] connected_page) = E_pending
   \<and> trace (run [EchoChunk ''a'', SetEcho False] connected_page) =
        trace connected_page @ [(Sink, WriteUtf8 ''a'')]
   \<and> trace (step (EchoChunk ''b'') (run [EchoChunk ''a'', SetEcho False] connected_page)) =
        trace (run [EchoChunk ''a'', SetEcho False] connected_page)"
proof -
  have p: "localEchoClosed (run [EchoChunk ''a'', SetEcho False] connected_page) = E_pending"
    by code_simp
  have e: "echoCheckbox_checked connected_page"
    by code_simp
  have a: "trace (run [EchoChunk ''a'', SetEcho False] connected_page) =
        trace connected_page @ [(Sink, WriteUtf8 ''a'')]"
    by code_simp
  from C5_echo_gated_per_chunk [OF p, of "''b''"]
  have "trace (step (EchoChunk ''b'') (run [EchoChunk ''a'', SetEcho False] connected_page)) =
        trace (run [EchoChunk ''a'', SetEcho False] connected_page)"
    by (simp only: last_echo.simps if_False append_Nil2)
  with p e a show ?thesis
    by blast
qed

subsection \<open>C6: a failing write\<close>

text \<open>The write pump in the middle of an iteration, in a reachable state.\<close>

lemma write_pump_iterating:
  assumes "s = run evs (init f u b)" and "portUnwritable s = W_await_pipeTo c"
  shows "streamController s < c" and "c < next_controller s"
    and "localEchoClosed s = E_pending \<or> (\<exists>x. localEchoClosed s = E_settled x)"
    and "portUnreadable s = R_await_pipeTo \<Longrightarrow> processStreams_promise s = C_await_portUnreadable"
proof -
  have p: "pumps_inv s" and c: "controller_inv s"
    using assms(1) by (simp_all add: inv_reachable)
  from c show "processStreams_promise s = C_await_portUnreadable"
    if "portUnreadable s = R_await_pipeTo"
    using that by (cases "processStreams_promise s") (simp_all add: controller_inv_def)
  from p assms(2) show "streamController s < c" and "c < next_controller s"
    by (simp_all add: pumps_inv_def)
  from p assms(2) have "localEchoClosed s \<noteq> E_undefined"
    by (simp add: pumps_inv_def)
  then show "localEchoClosed s = E_pending \<or> (\<exists>x. localEchoClosed s = E_settled x)"
    by (cases "localEchoClosed s") simp_all
qed

text \<open>
  The pipe to the port settles in such a state. When the echo pipe is still pending the
  pump awaits it.
\<close>

lemma write_settled_echo_pending:
  assumes "portUnwritable s = W_await_pipeTo c" and "localEchoClosed s = E_pending"
  shows "step (WritePipeSettled r) s =
     s\<lparr>aborted := insert c (aborted s),
       portUnwritable := W_await_localEchoClosed None,
       trace := trace s @
         (case r of
            Resolved \<Rightarrow> []
          | Rejected e \<Rightarrow>
              if err_name e \<noteq> ''AbortError''
              then [(WritePump, Writeln (''<WRITE ERROR: '' @ err_message e @ ''>''))]
              else []) @
         [(WritePump, Abort c)]\<rparr>"
  using assms by (simp add: processWritableStream_pipe_settled_nf)


text \<open>
  The end of an iteration of the write pump: the pipe to the port settles (with \<open>r\<close>),
  and the echo pipe settles (with \<open>r'\<close>) if it has not settled before.
\<close>

lemma write_iteration_ends:
  assumes "s = run evs (init f u b)" and "portUnwritable s = W_await_pipeTo c"
    and "s' = (if localEchoClosed s = E_pending
               then run [WritePipeSettled r, EchoPipeSettled r'] s
               else step (WritePipeSettled r) s)"
  shows "portUnwritable s' =
           (if port_writable s \<and> \<not> signal_aborted (streamController s) s
            then W_await_pipeTo (next_controller s) else W_fulfilled)"
    and "write_pump_effects (trace s') =
           write_pump_effects (trace s) @
           (case r of
              Resolved \<Rightarrow> []
            | Rejected e \<Rightarrow>
                if err_name e \<noteq> ''AbortError''
                then [Writeln (''<WRITE ERROR: '' @ err_message e @ ''>'')] else []) @
           [Abort c] @
           (if port_writable s \<and> \<not> signal_aborted (streamController s) s
            then iteration_effects (streamController s) (next_controller s) else [])"
    and "lines_of (trace s') =
           lines_of (trace s) @
           (case r of
              Resolved \<Rightarrow> []
            | Rejected e \<Rightarrow>
                if err_name e \<noteq> ''AbortError''
                then [''<WRITE ERROR: '' @ err_message e @ ''>''] else [])"
    and "portUnreadable s' = portUnreadable s"
    and "portUnreadable s = R_await_pipeTo \<Longrightarrow>
           processStreams_promise s' = C_await_portUnreadable \<and> connected s' \<and>
           session_effects (trace s') = session_effects (trace s)"
proof -
  let ?note = "case r of
              Resolved \<Rightarrow> []
            | Rejected e \<Rightarrow>
                if err_name e \<noteq> ''AbortError''
                then [(WritePump, Writeln (''<WRITE ERROR: '' @ err_message e @ ''>''))] else []"
  let ?s2 = "s\<lparr>aborted := insert c (aborted s), trace := trace s @ ?note @ [(WritePump, Abort c)]\<rparr>"
  note it = write_pump_iterating [OF assms(1,2)]
  have "\<exists>s3. s' = processWritableStream s3
      \<and> port_writable s3 = port_writable s \<and> streamController s3 = streamController s
      \<and> aborted s3 = insert c (aborted s) \<and> next_controller s3 = next_controller s
      \<and> trace s3 = trace s @ ?note @ [(WritePump, Abort c)]
      \<and> portUnreadable s3 = portUnreadable s \<and> processStreams_promise s3 = processStreams_promise s
      \<and> connected s3 = connected s"
  proof (cases "localEchoClosed s = E_pending")
    case True
    let ?s1 = "?s2\<lparr>portUnwritable := W_await_localEchoClosed None\<rparr>"
    have "step (WritePipeSettled r) s = ?s1"
      using write_settled_echo_pending [OF assms(2) True, of r] by simp
    then have "s' = processWritableStream (?s1\<lparr>localEchoClosed := E_settled r'\<rparr>)"
      using True assms(3)
      by (simp add: localEchoClosed_settled_def processWritableStream_end_finally_def)
    then show ?thesis
      by (intro exI [of _ "?s1\<lparr>localEchoClosed := E_settled r'\<rparr>"]) simp
  next
    case False
    with it(3) obtain x where "localEchoClosed s = E_settled x"
      by blast
    with False assms(2,3) have "s' = processWritableStream ?s2"
      by (simp add: processWritableStream_pipe_settled_nf)
    then show ?thesis
      by (intro exI [of _ ?s2]) simp
  qed
  then obtain s3 where s': "s' = processWritableStream s3"
    and s3: "port_writable s3 = port_writable s" "streamController s3 = streamController s"
      "aborted s3 = insert c (aborted s)" "next_controller s3 = next_controller s"
      "trace s3 = trace s @ ?note @ [(WritePump, Abort c)]"
      "portUnreadable s3 = portUnreadable s" "processStreams_promise s3 = processStreams_promise s"
      "connected s3 = connected s"
    by blast
  from it(1) have again: "(port_writable s3 \<and> streamController s3 \<notin> aborted s3) =
      (port_writable s \<and> \<not> signal_aborted (streamController s) s)"
    by (auto simp: s3 signal_aborted_def)
  show "portUnwritable s' =
           (if port_writable s \<and> \<not> signal_aborted (streamController s) s
            then W_await_pipeTo (next_controller s) else W_fulfilled)"
    unfolding s' using again
    by (simp add: processWritableStream_nf s3)
  show "write_pump_effects (trace s') =
           write_pump_effects (trace s) @
           (case r of
              Resolved \<Rightarrow> []
            | Rejected e \<Rightarrow>
                if err_name e \<noteq> ''AbortError''
                then [Writeln (''<WRITE ERROR: '' @ err_message e @ ''>'')] else []) @
           [Abort c] @
           (if port_writable s \<and> \<not> signal_aborted (streamController s) s
            then iteration_effects (streamController s) (next_controller s) else [])"
    unfolding s' using again
    by (simp add: processWritableStream_nf s3
        write_pump_effects_append write_pump_effects_simps write_pump_effects_iteration
        split: settled.splits)
  show "lines_of (trace s') =
           lines_of (trace s) @
           (case r of
              Resolved \<Rightarrow> []
            | Rejected e \<Rightarrow>
                if err_name e \<noteq> ''AbortError''
                then [''<WRITE ERROR: '' @ err_message e @ ''>''] else [])"
    unfolding s'
    by (simp add: processWritableStream_nf s3
        lines_of_append lines_of_simps iteration_effects_def split: settled.splits)
  show "portUnreadable s' = portUnreadable s"
    unfolding s' by (simp add: processWritableStream_frame s3)
  show "processStreams_promise s' = C_await_portUnreadable \<and> connected s' \<and>
           session_effects (trace s') = session_effects (trace s)"
    if r: "portUnreadable s = R_await_pipeTo"
  proof -
    from r it(4) have p: "processStreams_promise s = C_await_portUnreadable"
      by auto
    have "controller_inv s"
      using assms(1) by (simp add: inv_reachable)
    with p have c: "connected s"
      by (simp add: controller_inv_def)
    show ?thesis
      unfolding s' using p c
      by (simp add: processWritableStream_frame s3 session_simps split: settled.splits)
  qed
qed



subsection \<open>C7: the port is not opened\<close>

text \<open>
  Claim C7: when opening fails because the user cancelled the choice of a port, nothing is
  reported; for any other failure a connect error is shown; either way no session becomes
  active (the connected flag stays false), no teardown runs, and the page stays in its
  disconnected state.

  One \<^verbatim>\<open>try\<close> block holds the call of the chooser and the opening of the port (lines 97 to
  99), and its \<^verbatim>\<open>catch\<close> block tests the name of the exception and nothing else (line
  101). The user chooses a port, and \<^verbatim>\<open>port.open\<close> is rejected with an exception whose name
  is \<^verbatim>\<open>NotFoundError\<close>: the user has cancelled nothing, the port is not opened, and no
  line is written.
\<close>

theorem C7_counterexample:
  "trace (step (Click Resolved (Rejected (JsError ''NotFoundError'' ''The device was not found.'')))
       example_start) =
     [(ClickHandler, RequestPort),
      (ClickHandler, PortOpen
         \<lparr>baudrate = Num 9600, databits = Num 8, parity = ''none'', stopbits = Num 1,
          rtscts = False\<rparr>)]
   \<and> lines_of (trace (step (Click Resolved
       (Rejected (JsError ''NotFoundError'' ''The device was not found.''))) example_start)) = []"
  by code_simp

text \<open>
  Claim C7, amended: when the chooser is rejected, or the port is chosen and \<^verbatim>\<open>port.open\<close>
  is rejected, nothing is reported if the name of the exception is \<^verbatim>\<open>NotFoundError\<close> (the
  name with which the chooser rejects when the user cancels), whichever of the two calls
  has failed, and a connect error is written for any other name; either way no session
  becomes active, no teardown runs, and the page stays in its disconnected state.

  A click on the page when it is not connected: the state after the click is the state
  before it with a longer trace, so the flag, the widgets and the promises are what they
  were and no pump has started; the trace has grown by the calls of \<^verbatim>\<open>requestPort\<close> (and of
  \<^verbatim>\<open>port.open\<close>), and by the connect error unless the name is \<^verbatim>\<open>NotFoundError\<close>.
\<close>

theorem C7_open_fails:
  assumes "\<not> connected s"
  shows "step (Click (Rejected e) opened) s =
           s\<lparr>trace := trace s @ [(ClickHandler, RequestPort)] @
              (if err_name e \<noteq> ''NotFoundError''
               then [(ClickHandler, Writeln (''<CONNECT ERROR: '' @ err_message e))] else [])\<rparr>
       \<and> step (Click Resolved (Rejected e)) s =
           s\<lparr>trace := trace s @
              [(ClickHandler, RequestPort),
               (ClickHandler, PortOpen
                  \<lparr>baudrate = getSelectedBaudRate s,
                   databits = parseInt (dataBitsSelector_value (form s)),
                   parity = paritySelector_value (form s),
                   stopbits = parseInt (stopBitsSelector_value (form s)),
                   rtscts = flowControlCheckbox_checked (form s)\<rparr>)] @
              (if err_name e \<noteq> ''NotFoundError''
               then [(ClickHandler, Writeln (''<CONNECT ERROR: '' @ err_message e))] else [])\<rparr>"
  using assms
  by (simp add: click_def requestNewPort_def connectToPort_def requestNewPort_catch_def
      try_catch_def await_def writeln_def emit_def getSelectedBaudRate_def)

text \<open>The user closes the chooser; and, on another day, the port cannot be opened.\<close>

theorem C7_open_fails_witness:
  "\<not> connected example_start
   \<and> step (Click (Rejected (JsError ''NotFoundError'' ''No port selected by the user.'')) Resolved)
        example_start =
      example_start\<lparr>trace := [(ClickHandler, RequestPort)]\<rparr>
   \<and> lines_of (trace (step (Click Resolved (Rejected (JsError ''NetworkError'' ''Failed to open serial port.'')))
        example_start)) = [''<CONNECT ERROR: Failed to open serial port.'']
   \<and> connected (step (Click Resolved (Rejected (JsError ''NetworkError'' ''Failed to open serial port.'')))
        example_start) = False
   \<and> ui (step (Click Resolved (Rejected (JsError ''NetworkError'' ''Failed to open serial port.'')))
        example_start) = ui_disconnected
   \<and> processStreams_promise
        (step (Click Resolved (Rejected (JsError ''NetworkError'' ''Failed to open serial port.'')))
        example_start) = C_undefined"
proof -
  have n: "\<not> connected example_start"
    by code_simp
  have t: "trace example_start = []" "ui example_start = ui_disconnected"
    "processStreams_promise example_start = C_undefined"
    by (simp_all add: example_start_def init_def)
  note c = C7_open_fails [OF n, of "JsError ''NotFoundError'' ''No port selected by the user.''" Resolved]
  note o = C7_open_fails [OF n, of "JsError ''NetworkError'' ''Failed to open serial port.''"]
  from c have "step (Click (Rejected (JsError ''NotFoundError'' ''No port selected by the user.'')) Resolved)
        example_start = example_start\<lparr>trace := [(ClickHandler, RequestPort)]\<rparr>"
    by (simp add: t del: step.simps)
  moreover from o have "step (Click Resolved (Rejected (JsError ''NetworkError'' ''Failed to open serial port.'')))
        example_start =
        example_start\<lparr>trace := trace example_start @
              [(ClickHandler, RequestPort),
               (ClickHandler, PortOpen
                  \<lparr>baudrate = getSelectedBaudRate example_start,
                   databits = parseInt (dataBitsSelector_value (form example_start)),
                   parity = paritySelector_value (form example_start),
                   stopbits = parseInt (stopBitsSelector_value (form example_start)),
                   rtscts = flowControlCheckbox_checked (form example_start)\<rparr>),
               (ClickHandler, Writeln ''<CONNECT ERROR: Failed to open serial port.'')]\<rparr>"
    by (simp del: step.simps)
  then have "lines_of (trace (step (Click Resolved (Rejected (JsError ''NetworkError'' ''Failed to open serial port.'')))
        example_start)) = [''<CONNECT ERROR: Failed to open serial port.'']"
    and "connected (step (Click Resolved (Rejected (JsError ''NetworkError'' ''Failed to open serial port.'')))
        example_start) = False"
    and "ui (step (Click Resolved (Rejected (JsError ''NetworkError'' ''Failed to open serial port.'')))
        example_start) = ui_disconnected"
    and "processStreams_promise
        (step (Click Resolved (Rejected (JsError ''NetworkError'' ''Failed to open serial port.'')))
        example_start) = C_undefined"
    using n t by (simp_all add: lines_of_simps del: step.simps)
  ultimately show ?thesis
    using n by blast
qed

subsection \<open>C8: the echo is a side tap\<close>

text \<open>
  Claim C8: the echo transfer of each iteration of the write pump is a side tap bound to
  a scope of its own, made for the iteration; it never closes, aborts or cancels the
  keystroke source or the echo sink; and when the shared scope is cancelled the pump
  cancels the echo's scope, awaits the echo transfer whatever its outcome, and leaves its
  loop.

  In every reachable state: every \<^verbatim>\<open>pipeTo\<close> the module has called was given
  \<^verbatim>\<open>preventClose\<close>, \<^verbatim>\<open>preventAbort\<close> and \<^verbatim>\<open>preventCancel\<close> (and a pipe is all the module ever does
  to a stream); when the pump awaits its pipe to the port, the last things it did were to
  make a controller, to pipe the keystrokes to the echo sink under that controller's
  signal, and to pipe them to the port under the shared signal, and the controller is not
  the shared one; and if the shared scope is cancelled, then when the pipe to the port
  settles the pump aborts the iteration's controller and awaits the echo pipe if it is
  still pending, and when the echo pipe has settled, fulfilled or rejected, the pump has
  returned, having done nothing more than that abort (and a write error, when the pipe to
  the port failed with something else than a cancellation).
\<close>

theorem C8_echo_side_tap:
  assumes "s = run evs (init f u b)"
  shows "list_all prevents_all (trace s)
       \<and> (\<forall>c. portUnwritable s = W_await_pipeTo c \<longrightarrow>
              c \<noteq> streamController s
            \<and> (\<exists>pre. write_pump_effects (trace s) = pre @ iteration_effects (streamController s) c)
            \<and> (signal_aborted (streamController s) s \<longrightarrow>
                 (\<forall>r r'.
                    (localEchoClosed s = E_pending \<longrightarrow>
                       portUnwritable (step (WritePipeSettled r) s) = W_await_localEchoClosed None
                     \<and> signal_aborted c (step (WritePipeSettled r) s))
                  \<and> portUnwritable (if localEchoClosed s = E_pending
                                     then run [WritePipeSettled r, EchoPipeSettled r'] s
                                     else step (WritePipeSettled r) s) = W_fulfilled
                  \<and> write_pump_effects (trace (if localEchoClosed s = E_pending
                                     then run [WritePipeSettled r, EchoPipeSettled r'] s
                                     else step (WritePipeSettled r) s)) =
                      write_pump_effects (trace s) @
                      (case r of
                         Resolved \<Rightarrow> []
                       | Rejected e \<Rightarrow>
                           if err_name e \<noteq> ''AbortError''
                           then [Writeln (''<WRITE ERROR: '' @ err_message e @ ''>'')] else []) @
                      [Abort c])))"
proof -
  have p: "pumps_inv s"
    using assms by (simp add: inv_reachable)
  then have flags: "list_all prevents_all (trace s)"
    by (simp add: pumps_inv_def)
  have iteration: "c \<noteq> streamController s
            \<and> (\<exists>pre. write_pump_effects (trace s) = pre @ iteration_effects (streamController s) c)"
    if "portUnwritable s = W_await_pipeTo c" for c
    using p that by (auto simp: pumps_inv_def)
  have waits: "portUnwritable (step (WritePipeSettled r) s) = W_await_localEchoClosed None
                     \<and> signal_aborted c (step (WritePipeSettled r) s)"
    if "portUnwritable s = W_await_pipeTo c" and "localEchoClosed s = E_pending" for c r
    unfolding write_settled_echo_pending [OF that]
    by (simp add: signal_aborted_def)
  have exits: "portUnwritable (if localEchoClosed s = E_pending
                                     then run [WritePipeSettled r, EchoPipeSettled r'] s
                                     else step (WritePipeSettled r) s) = W_fulfilled
                  \<and> write_pump_effects (trace (if localEchoClosed s = E_pending
                                     then run [WritePipeSettled r, EchoPipeSettled r'] s
                                     else step (WritePipeSettled r) s)) =
                      write_pump_effects (trace s) @
                      (case r of
                         Resolved \<Rightarrow> []
                       | Rejected e \<Rightarrow>
                           if err_name e \<noteq> ''AbortError''
                           then [Writeln (''<WRITE ERROR: '' @ err_message e @ ''>'')] else []) @
                      [Abort c]"
    if w: "portUnwritable s = W_await_pipeTo c" and a: "signal_aborted (streamController s) s"
    for c r r'
    using write_iteration_ends(1,2) [OF assms w refl, of r r'] a
    by simp
  from flags iteration waits exits show ?thesis
    by blast
qed

text \<open>The user has stopped the session; the echo pipe ends with an error of its own.\<close>

theorem C8_echo_side_tap_witness:
  "portUnwritable stop_clicked = W_await_pipeTo 2
   \<and> streamController stop_clicked = 1
   \<and> signal_aborted (streamController stop_clicked) stop_clicked
   \<and> localEchoClosed stop_clicked = E_pending
   \<and> list_all prevents_all (trace stop_clicked)
   \<and> portUnwritable (step (WritePipeSettled (Rejected abort_error)) stop_clicked) =
        W_await_localEchoClosed None
   \<and> signal_aborted 2 (step (WritePipeSettled (Rejected abort_error)) stop_clicked)
   \<and> portUnwritable
        (run [WritePipeSettled (Rejected abort_error),
              EchoPipeSettled (Rejected (JsError ''TypeError'' ''The stream is locked.''))]
           stop_clicked) = W_fulfilled"
proof -
  have h: "stop_clicked =
      run [Click Resolved Resolved, Click Resolved Resolved] (init example_form ui_disconnected True)"
    by (simp only: stop_clicked_def example_start_def)
  have w: "portUnwritable stop_clicked = W_await_pipeTo 2"
    and c: "streamController stop_clicked = 1"
    and a: "signal_aborted (streamController stop_clicked) stop_clicked"
    and p: "localEchoClosed stop_clicked = E_pending"
    by code_simp+
  note t = C8_echo_side_tap [OF h]
  from t have f: "list_all prevents_all (trace stop_clicked)"
    by (rule conjunct1)
  from t w a have "\<forall>r r'.
      (localEchoClosed stop_clicked = E_pending \<longrightarrow>
         portUnwritable (step (WritePipeSettled r) stop_clicked) = W_await_localEchoClosed None
       \<and> signal_aborted 2 (step (WritePipeSettled r) stop_clicked))
      \<and> portUnwritable (if localEchoClosed stop_clicked = E_pending
                         then run [WritePipeSettled r, EchoPipeSettled r'] stop_clicked
                         else step (WritePipeSettled r) stop_clicked) = W_fulfilled"
    by blast
  then have "portUnwritable (step (WritePipeSettled (Rejected abort_error)) stop_clicked) =
        W_await_localEchoClosed None
      \<and> signal_aborted 2 (step (WritePipeSettled (Rejected abort_error)) stop_clicked)"
    and "portUnwritable
        (run [WritePipeSettled (Rejected abort_error),
              EchoPipeSettled (Rejected (JsError ''TypeError'' ''The stream is locked.''))]
           stop_clicked) = W_fulfilled"
    using p by (simp_all only: simp_thms if_True)
  with w c a p f show ?thesis
    by blast
qed

subsection \<open>C9: a cancellation is silent\<close>

text \<open>
  Claim C9: cancelling the shared scope is a silent exit for both pumps: a transfer that
  ends with a cancellation (an \<^verbatim>\<open>AbortError\<close>) never gives a read error or a write error on
  the display, and never an exception that passes the pump and reaches the controller.

  In every reachable state: the promise of neither pump is rejected, and the promise of
  \<^verbatim>\<open>processStreams\<close> is rejected only after \<^verbatim>\<open>port.close()\<close> was called; when a pump's
  transfer is rejected with an \<^verbatim>\<open>AbortError\<close>, no line is written to the display (for the
  write pump: up to the settling of the echo pipe, whatever its outcome); and if the shared
  scope is cancelled, the pump has returned.
\<close>

theorem C9_cancellation_is_silent:
  assumes "s = run evs (init f u b)" and "err_name e = ''AbortError''"
  shows "(\<forall>x. portUnreadable s \<noteq> R_rejected x) \<and> (\<forall>x. portUnwritable s \<noteq> W_rejected x)
       \<and> (\<forall>x. processStreams_promise s = C_rejected x \<longrightarrow>
              PortClose \<in> set (session_effects (trace s)))
       \<and> (portUnreadable s = R_await_pipeTo \<longrightarrow>
              lines_of (trace (step (ReadPipeSettled (Rejected e)) s)) = lines_of (trace s)
            \<and> (signal_aborted (streamController s) s \<longrightarrow>
                 portUnreadable (step (ReadPipeSettled (Rejected e)) s) = R_fulfilled))
       \<and> (\<forall>c r. portUnwritable s = W_await_pipeTo c \<longrightarrow>
              lines_of (trace (if localEchoClosed s = E_pending
                               then run [WritePipeSettled (Rejected e), EchoPipeSettled r] s
                               else step (WritePipeSettled (Rejected e)) s)) = lines_of (trace s)
            \<and> (signal_aborted (streamController s) s \<longrightarrow>
                 portUnwritable (if localEchoClosed s = E_pending
                                 then run [WritePipeSettled (Rejected e), EchoPipeSettled r] s
                                 else step (WritePipeSettled (Rejected e)) s) = W_fulfilled))"
proof -
  have p: "pumps_inv s" and c: "controller_inv s"
    using assms(1) by (simp_all add: inv_reachable)
  from p have never: "(\<forall>x. portUnreadable s \<noteq> R_rejected x) \<and> (\<forall>x. portUnwritable s \<noteq> W_rejected x)"
    by (simp add: pumps_inv_def)
  from c have close: "\<forall>x. processStreams_promise s = C_rejected x \<longrightarrow>
      PortClose \<in> set (session_effects (trace s))"
    by (auto simp: controller_inv_def teardown_order_def)
  have reading: "lines_of (trace (step (ReadPipeSettled (Rejected e)) s)) = lines_of (trace s)
            \<and> (signal_aborted (streamController s) s \<longrightarrow>
                 portUnreadable (step (ReadPipeSettled (Rejected e)) s) = R_fulfilled)"
    if "portUnreadable s = R_await_pipeTo"
    using that assms(2)
    by (simp add: processReadableStream_pipe_settled_nf lines_of_append lines_of_simps
        signal_aborted_def)
  have writing: "lines_of (trace (if localEchoClosed s = E_pending
                               then run [WritePipeSettled (Rejected e), EchoPipeSettled r] s
                               else step (WritePipeSettled (Rejected e)) s)) = lines_of (trace s)
            \<and> (signal_aborted (streamController s) s \<longrightarrow>
                 portUnwritable (if localEchoClosed s = E_pending
                                 then run [WritePipeSettled (Rejected e), EchoPipeSettled r] s
                                 else step (WritePipeSettled (Rejected e)) s) = W_fulfilled)"
    if w: "portUnwritable s = W_await_pipeTo c" for c r
    using write_iteration_ends(1,3) [OF assms(1) w refl, of "Rejected e" r] assms(2)
    by simp
  from never close reading writing show ?thesis
    by blast
qed

text \<open>The user has stopped the session: the read pump's pipe is aborted.\<close>

theorem C9_cancellation_is_silent_witness:
  "err_name abort_error = ''AbortError''
   \<and> portUnreadable stop_clicked = R_await_pipeTo
   \<and> signal_aborted (streamController stop_clicked) stop_clicked
   \<and> lines_of (trace (step (ReadPipeSettled (Rejected abort_error)) stop_clicked)) = [''<CONNECTED>'']
   \<and> portUnreadable (step (ReadPipeSettled (Rejected abort_error)) stop_clicked) = R_fulfilled"
proof -
  have h: "stop_clicked =
      run [Click Resolved Resolved, Click Resolved Resolved] (init example_form ui_disconnected True)"
    by (simp only: stop_clicked_def example_start_def)
  have a: "err_name abort_error = ''AbortError''"
    by (simp add: abort_error_def)
  have r: "portUnreadable stop_clicked = R_await_pipeTo"
    and g: "signal_aborted (streamController stop_clicked) stop_clicked"
    and l: "lines_of (trace stop_clicked) = [''<CONNECTED>'']"
    by code_simp+
  from C9_cancellation_is_silent [OF h a]
  have "portUnreadable stop_clicked = R_await_pipeTo \<longrightarrow>
      lines_of (trace (step (ReadPipeSettled (Rejected abort_error)) stop_clicked)) =
        lines_of (trace stop_clicked)
      \<and> (signal_aborted (streamController stop_clicked) stop_clicked \<longrightarrow>
           portUnreadable (step (ReadPipeSettled (Rejected abort_error)) stop_clicked) = R_fulfilled)"
    by blast
  with r g have "lines_of (trace (step (ReadPipeSettled (Rejected abort_error)) stop_clicked)) =
        lines_of (trace stop_clicked)"
    and "portUnreadable (step (ReadPipeSettled (Rejected abort_error)) stop_clicked) = R_fulfilled"
    by blast+
  with a r g l show ?thesis
    by (simp del: step.simps)
qed

subsection \<open>C10: the baud rate is not checked\<close>

text \<open>A string without a decimal digit is not a number.\<close>

lemma parse_digits_no_digit:
  assumes "\<forall>c\<in>set str. \<not> is_digit 10 c"
  shows "parse_digits 10 str = None"
  using assms by (cases str) (simp_all add: parse_digits_def)

lemma strip_radix_no_digit:
  assumes "\<forall>c\<in>set str. \<not> is_digit 10 c"
  shows "strip_radix str = (10, str)"
proof (cases str)
  case Nil
  then show ?thesis by (simp add: strip_radix_def)
next
  case (Cons c cs)
  with assms have "\<not> is_digit 10 c"
    by simp
  then have "c \<noteq> CHR ''0''"
    by (auto simp: is_digit_def digit_of_def)
  with Cons show ?thesis
    by (cases cs) (simp_all add: strip_radix_def)
qed

lemma strip_sign_subset: "set (snd (strip_sign str)) \<subseteq> set str"
  by (cases str) (auto simp: strip_sign_def)

lemma parseInt_no_digit:
  assumes "\<forall>c\<in>set str. \<not> is_digit 10 c"
  shows "parseInt str = NaN"
proof -
  obtain sign s1 where s: "strip_sign (dropWhile is_white_space str) = (sign, s1)"
    by (cases "strip_sign (dropWhile is_white_space str)")
  have "set s1 \<subseteq> set (dropWhile is_white_space str)"
    using strip_sign_subset [of "dropWhile is_white_space str"] s by simp
  also have "\<dots> \<subseteq> set str"
    by (rule set_dropWhileD [THEN subsetI]) 
  finally have n: "\<forall>c\<in>set s1. \<not> is_digit 10 c"
    using assms by blast
  show ?thesis
    by (simp add: parseInt_def s strip_radix_no_digit [OF n] parse_digits_no_digit [OF n])
qed

text \<open>A function of the module only ever adds to the trace.\<close>

lemma trace_processStreams: "prefix (trace s @ [(Controller, New_AbortController (next_controller s))]) (trace (processStreams s))"
proof -
  let ?s2 = "(emit Controller (New_AbortController (next_controller s))
               (s\<lparr>next_controller := Suc (next_controller s),
                  aborted := aborted s - {next_controller s}\<rparr>))
             \<lparr>streamController := next_controller s\<rparr>"
  have "prefix (trace ?s2) (trace (processReadableStream ?s2))"
    by (simp add: processReadableStream_nf)
  also have "prefix \<dots> (trace (processWritableStream (processReadableStream ?s2)))"
    by (simp add: processWritableStream_nf)
  finally show ?thesis
    by (simp add: processStreams_def new_AbortController_def Let_def emit_def)
qed

lemma getSelectedBaudRate_trace:
  "getSelectedBaudRate (s\<lparr>trace := tr\<rparr>) = getSelectedBaudRate s"
  by (simp add: getSelectedBaudRate_def)

text \<open>
  Claim C10: \<^verbatim>\<open>getSelectedBaudRate\<close> returns the integer parse of the custom input exactly
  when the selector's value is the string \<^verbatim>\<open>custom\<close>, and the integer parse of the
  selector's value otherwise; nothing checks the range or for \<^verbatim>\<open>NaN\<close>, so an input that
  is not a number gives \<^verbatim>\<open>NaN\<close>, which is passed as the \<^verbatim>\<open>baudrate\<close> of the options of
  \<^verbatim>\<open>port.open\<close>.

  A click on the page when it is not connected, with a port chosen: whatever the form
  holds, the module calls \<^verbatim>\<open>port.open\<close> next, with the value of \<^verbatim>\<open>getSelectedBaudRate\<close> as
  the \<^verbatim>\<open>baudrate\<close>; and that value is \<^verbatim>\<open>NaN\<close> when the selector says \<^verbatim>\<open>custom\<close> and the
  custom input has no decimal digit.
\<close>

theorem C10_baud_rate_unchecked:
  assumes "\<not> connected s"
  shows "getSelectedBaudRate s =
           (if baudRateSelector_value (form s) = ''custom''
            then parseInt (customBaudRateInput_value (form s))
            else parseInt (baudRateSelector_value (form s)))
       \<and> prefix
           (trace s @
              [(ClickHandler, RequestPort),
               (ClickHandler, PortOpen
                  \<lparr>baudrate = getSelectedBaudRate s,
                   databits = parseInt (dataBitsSelector_value (form s)),
                   parity = paritySelector_value (form s),
                   stopbits = parseInt (stopBitsSelector_value (form s)),
                   rtscts = flowControlCheckbox_checked (form s)\<rparr>)])
           (trace (step (Click Resolved opened) s))
       \<and> ((\<forall>c\<in>set (customBaudRateInput_value (form s)). \<not> is_digit 10 c) \<and>
            baudRateSelector_value (form s) = ''custom'' \<longrightarrow> getSelectedBaudRate s = NaN)"
proof -
  let ?open = "(ClickHandler, PortOpen
                  \<lparr>baudrate = getSelectedBaudRate s,
                   databits = parseInt (dataBitsSelector_value (form s)),
                   parity = paritySelector_value (form s),
                   stopbits = parseInt (stopBitsSelector_value (form s)),
                   rtscts = flowControlCheckbox_checked (form s)\<rparr>)"
  have called: "prefix (trace s @ [(ClickHandler, RequestPort), ?open])
          (trace (step (Click Resolved opened) s))"
  proof (cases opened)
    case Resolved
    let ?s' = "s\<lparr>connected := True, ui := ui_connected,
        trace := trace s @ [(ClickHandler, RequestPort), ?open, (ClickHandler, Writeln ''<CONNECTED>'')]\<rparr>"
    have "prefix (trace s @ [(ClickHandler, RequestPort), ?open]) (trace ?s')"
      by simp
    also have "prefix \<dots> (trace (processStreams ?s'))"
      using trace_processStreams [of ?s'] by (rule append_prefixD)
    finally show ?thesis
      using assms Resolved
      by (simp add: click_def requestNewPort_def connectToPort_def try_catch_def await_def
          getSelectedBaudRate_trace emit_def writeln_def)
  next
    case (Rejected e)
    with assms show ?thesis
      by (simp add: click_def requestNewPort_def connectToPort_def requestNewPort_catch_def
          try_catch_def await_def writeln_def emit_def getSelectedBaudRate_trace)
  qed
  have chosen: "getSelectedBaudRate s =
           (if baudRateSelector_value (form s) = ''custom''
            then parseInt (customBaudRateInput_value (form s))
            else parseInt (baudRateSelector_value (form s)))"
    by (simp add: getSelectedBaudRate_def)
  have nan: "(\<forall>c\<in>set (customBaudRateInput_value (form s)). \<not> is_digit 10 c) \<and>
            baudRateSelector_value (form s) = ''custom'' \<longrightarrow> getSelectedBaudRate s = NaN"
    by (simp add: getSelectedBaudRate_def parseInt_no_digit)
  from chosen called nan show ?thesis
    by (intro conjI)
qed

text \<open>The user asks for the baud rate \<^verbatim>\<open>fast\<close>: the port is opened with \<^verbatim>\<open>NaN\<close>.\<close>

theorem C10_baud_rate_unchecked_witness:
  "\<not> connected custom_start
   \<and> getSelectedBaudRate custom_start = NaN
   \<and> prefix
        [(ClickHandler, RequestPort),
         (ClickHandler, PortOpen
            \<lparr>baudrate = NaN, databits = Num 8, parity = ''none'', stopbits = Num 1,
             rtscts = False\<rparr>)]
        (trace (step (Click Resolved Resolved) custom_start))
   \<and> connected (step (Click Resolved Resolved) custom_start)"
proof -
  have n: "\<not> connected custom_start"
    by code_simp
  have f: "trace custom_start = []" "baudRateSelector_value (form custom_start) = ''custom''"
    "customBaudRateInput_value (form custom_start) = ''fast''"
    "parseInt (dataBitsSelector_value (form custom_start)) = Num 8"
    "paritySelector_value (form custom_start) = ''none''"
    "parseInt (stopBitsSelector_value (form custom_start)) = Num 1"
    "flowControlCheckbox_checked (form custom_start) = False"
    by code_simp+
  have d: "\<forall>c\<in>set ''fast''. \<not> is_digit 10 c"
    by (simp add: is_digit_def digit_of_def)
  note t = C10_baud_rate_unchecked [OF n, of Resolved]
  from t have "(\<forall>c\<in>set (customBaudRateInput_value (form custom_start)). \<not> is_digit 10 c) \<and>
      baudRateSelector_value (form custom_start) = ''custom'' \<longrightarrow>
      getSelectedBaudRate custom_start = NaN"
    by (rule conjunct2 [THEN conjunct2])
  with d have b: "getSelectedBaudRate custom_start = NaN"
    by (simp only: f simp_thms)
  from t have "prefix
           (trace custom_start @
              [(ClickHandler, RequestPort),
               (ClickHandler, PortOpen
                  \<lparr>baudrate = getSelectedBaudRate custom_start,
                   databits = parseInt (dataBitsSelector_value (form custom_start)),
                   parity = paritySelector_value (form custom_start),
                   stopbits = parseInt (stopBitsSelector_value (form custom_start)),
                   rtscts = flowControlCheckbox_checked (form custom_start)\<rparr>)])
           (trace (step (Click Resolved Resolved) custom_start))"
    by (rule conjunct2 [THEN conjunct1])
  then have "prefix
        [(ClickHandler, RequestPort),
         (ClickHandler, PortOpen
            \<lparr>baudrate = NaN, databits = Num 8, parity = ''none'', stopbits = Num 1,
             rtscts = False\<rparr>)]
        (trace (step (Click Resolved Resolved) custom_start))"
    by (simp only: f b append_Nil)
  moreover have "connected (step (Click Resolved Resolved) custom_start)"
    by code_simp
  ultimately show ?thesis
    using n b by blast
qed

end
